theory Spec2Isabelle
  imports Main
begin

section \<open>Kavach backend: the alert-notification subsystem of \<^verbatim>\<open>backend/main.py\<close>\<close>

text \<open>
  The embedding follows \<^verbatim>\<open>main.py\<close> from the in-memory stores \<^verbatim>\<open>alert_history\<close>,
  \<^verbatim>\<open>user_alert_settings\<close> and \<^verbatim>\<open>otp_storage\<close> down to the OTP endpoints. Python's
  unbounded integers are \<open>int\<close>, dictionaries keyed by user id are maps, a request body is a
  record of optional keys (\<^verbatim>\<open>data.get(key, default)\<close> supplies the default), and every
  endpoint takes the stores and returns them updated. What the process reads from outside
  (environment variables, the clock, the random generator, the e-mail and SMS providers) is a
  record \<open>environ\<close> passed to the endpoint.
\<close>

subsection \<open>Python helpers\<close>

text \<open>\<^verbatim>\<open>d.get(key, default)\<close> on an optional key.\<close>

definition dict_get :: "'a option \<Rightarrow> 'a \<Rightarrow> 'a" where
  "dict_get v dflt = (case v of None \<Rightarrow> dflt | Some x \<Rightarrow> x)"

text \<open>\<^verbatim>\<open>str(n)\<close> for an integer: decimal digits, a minus sign for negative numbers.\<close>

definition digit_char :: "nat \<Rightarrow> char" where
  "digit_char d =
     (if d = 0 then CHR ''0'' else if d = 1 then CHR ''1'' else if d = 2 then CHR ''2''
      else if d = 3 then CHR ''3'' else if d = 4 then CHR ''4'' else if d = 5 then CHR ''5''
      else if d = 6 then CHR ''6'' else if d = 7 then CHR ''7'' else if d = 8 then CHR ''8''
      else CHR ''9'')"

fun str_nat :: "nat \<Rightarrow> string" where
  "str_nat n = (if n < 10 then [digit_char n] else str_nat (n div 10) @ [digit_char (n mod 10)])"

declare str_nat.simps [simp del]

definition str_int :: "int \<Rightarrow> string" where
  "str_int i = (if i < 0 then ''-'' @ str_nat (nat (- i)) else str_nat (nat i))"

text \<open>
  \<^verbatim>\<open>xs[start:]\<close>: a negative start counts from the end and is clamped at the front, a start
  beyond the end gives the empty list.
\<close>

definition slice_from :: "int \<Rightarrow> 'a list \<Rightarrow> 'a list" where
  "slice_from start xs =
     (let n = int (length xs);
          s = (if start < 0 then max (n + start) 0 else min start n)
      in drop (nat s) xs)"

subsection \<open>Data model\<close>

text \<open>
  \<^verbatim>\<open>class AlertSettings(BaseModel)\<close>; \<^verbatim>\<open>save_alert_settings\<close> stores \<^verbatim>\<open>settings.dict()\<close>,
  so a stored entry always carries all ten keys. The two coordinates are Python floats, which
  no operation below reads; they are kept as optional integers (micro-degrees).
\<close>

record AlertSettings =
  email :: string
  phone :: string
  landslide_threshold :: int
  flood_threshold :: int
  rainfall_threshold :: int
  enable_email :: bool
  enable_sms :: bool
  alert_location :: string
  alert_lat :: "int option"
  alert_lng :: "int option"

datatype alert_type = Landslide | Flood | Heavy_Rainfall

datatype alert_level = WATCH | WARNING | EMERGENCY

fun type_str :: "alert_type \<Rightarrow> string" where
  "type_str Landslide = ''Landslide''"
| "type_str Flood = ''Flood''"
| "type_str Heavy_Rainfall = ''Heavy Rainfall''"

fun level_str :: "alert_level \<Rightarrow> string" where
  "level_str WATCH = ''WATCH''"
| "level_str WARNING = ''WARNING''"
| "level_str EMERGENCY = ''EMERGENCY''"

text \<open>The alert dictionary built in \<^verbatim>\<open>check_alerts\<close>, one field per key.\<close>

record Alert =
  a_id :: int
  a_type :: alert_type
  a_level :: alert_level
  a_value :: int
  a_threshold :: int
  a_message :: string
  a_location :: string
  a_timestamp :: string

text \<open>
  An entry of \<^verbatim>\<open>otp_storage\<close>. A \<^verbatim>\<open>datetime\<close> is a count of microseconds, so that
  \<^verbatim>\<open>timedelta(minutes=10)\<close> is \<open>600000000\<close>.
\<close>

record OtpRecord =
  otp_phone :: string
  otp :: string
  expiry :: int
  verified :: bool

definition timedelta_minutes :: "int \<Rightarrow> int" where
  "timedelta_minutes m = m * 60 * 1000000"

text \<open>The three module-level stores.\<close>

record state =
  alert_history :: "Alert list"
  user_alert_settings :: "string \<rightharpoonup> AlertSettings"
  otp_storage :: "string \<rightharpoonup> OtpRecord"

text \<open>The body of \<^verbatim>\<open>POST /alert/check\<close>.\<close>

record check_data =
  landslide_risk :: "int option"
  flood_risk :: "int option"
  rainfall :: "int option"
  location :: "string option"

text \<open>
  A JSON response: \<^verbatim>\<open>status\<close> is always present, the other keys only in the responses
  that carry them.
\<close>

record notifications =
  email_sent :: bool
  sms_sent :: bool

record response =
  status :: string
  message :: "string option"
  alerts :: "Alert list option"
  notification_flags :: "notifications option"
  phone_out :: "string option"
  verified_out :: "bool option"

subsection \<open>The outside world\<close>

text \<open>
  A provider call either returns or raises. \<open>resend_Emails_send\<close> stands for
  \<^verbatim>\<open>import resend; resend.Emails.send(params)\<close> together with the read of the returned id,
  as a function of the destination and the alert the parameters are built from;
  \<open>twilio_messages_create\<close> stands for \<^verbatim>\<open>Client(sid, token).messages.create(...)\<close> as a
  function of body, sender and destination. \<open>strftime_now\<close> is
  \<^verbatim>\<open>time.strftime("%Y-%m-%d %H:%M:%S")\<close>, \<open>datetime_now\<close> is \<^verbatim>\<open>datetime.now()\<close> and
  \<open>random_randint a b\<close> is the number that \<^verbatim>\<open>random.randint(a, b)\<close> draws, which the
  library promises to lie between \<open>a\<close> and \<open>b\<close>, both included.
\<close>

datatype outcome = Returns | Raises

record environ =
  RESEND_API_KEY :: string
  TWILIO_ACCOUNT_SID :: string
  TWILIO_AUTH_TOKEN :: string
  TWILIO_PHONE_NUMBER :: string
  resend_Emails_send :: "string \<Rightarrow> Alert \<Rightarrow> outcome"
  twilio_messages_create :: "string \<Rightarrow> string \<Rightarrow> string \<Rightarrow> outcome"
  strftime_now :: string
  datetime_now :: int
  random_randint :: "int \<Rightarrow> int \<Rightarrow> int"

subsection \<open>Channels\<close>

text \<open>
  \<^verbatim>\<open>send_email_alert\<close>: \<^verbatim>\<open>False\<close> without an API key, \<^verbatim>\<open>True\<close> when the provider call
  returns, and the enclosing \<^verbatim>\<open>except Exception\<close> turns a raise into \<^verbatim>\<open>False\<close>.
\<close>

definition send_email_alert :: "environ \<Rightarrow> string \<Rightarrow> Alert \<Rightarrow> bool" where
  "send_email_alert env to_email alert_data =
     (if RESEND_API_KEY env = [] then False
      else (case resend_Emails_send env to_email alert_data of
              Returns \<Rightarrow> True
            | Raises \<Rightarrow> False))"

text \<open>\<^verbatim>\<open>to_phone if to_phone.startswith('+') else f"+91{to_phone}"\<close>\<close>

definition with_country_code :: "string \<Rightarrow> string" where
  "with_country_code p = (if take 1 p = ''+'' then p else ''+91'' @ p)"

text \<open>The SMS text; it opens with U+1F6A8, four bytes in UTF-8.\<close>

definition sms_body :: "Alert \<Rightarrow> string" where
  "sms_body alert_data =
     [CHR 0xF0, CHR 0x9F, CHR 0x9A, CHR 0xA8] @ '' '' @ level_str (a_level alert_data)
       @ '' Alert: '' @ type_str (a_type alert_data) @ '' - '' @ a_message alert_data
       @ '' at your Location. Stay safe!''"

text \<open>
  \<^verbatim>\<open>send_sms_alert\<close>: with all three Twilio variables set the message is created and the
  function returns \<^verbatim>\<open>True\<close>; a Twilio error is logged and control falls through to the final
  \<^verbatim>\<open>return False\<close>, which is also what an unconfigured provider reaches.
\<close>

definition twilio_configured :: "environ \<Rightarrow> bool" where
  "twilio_configured env \<longleftrightarrow>
     TWILIO_ACCOUNT_SID env \<noteq> [] \<and> TWILIO_AUTH_TOKEN env \<noteq> [] \<and> TWILIO_PHONE_NUMBER env \<noteq> []"

definition send_sms_alert :: "environ \<Rightarrow> string \<Rightarrow> Alert \<Rightarrow> bool" where
  "send_sms_alert env to_phone alert_data =
     (if twilio_configured env then
        (case twilio_messages_create env (sms_body alert_data) (TWILIO_PHONE_NUMBER env)
                (with_country_code to_phone) of
           Returns \<Rightarrow> True
         | Raises \<Rightarrow> False)
      else False)"

subsection \<open>Alert settings store\<close>

definition save_alert_settings :: "AlertSettings \<Rightarrow> string \<Rightarrow> state \<Rightarrow> response \<times> state" where
  "save_alert_settings settings user_id st =
     (\<lparr>status = ''success'', message = Some ''Alert settings saved'', alerts = None,
       notification_flags = None, phone_out = None, verified_out = None\<rparr>,
      st\<lparr>user_alert_settings := (user_alert_settings st)(user_id \<mapsto> settings)\<rparr>)"

definition default_settings :: AlertSettings where
  "default_settings =
     \<lparr>email = [], phone = [], landslide_threshold = 70, flood_threshold = 60,
      rainfall_threshold = 100, enable_email = False, enable_sms = False,
      alert_location = [], alert_lat = None, alert_lng = None\<rparr>"

definition get_alert_settings :: "string \<Rightarrow> state \<Rightarrow> AlertSettings" where
  "get_alert_settings user_id st = dict_get (user_alert_settings st user_id) default_settings"

subsection \<open>Alert evaluator\<close>

text \<open>
  The three threshold blocks of \<^verbatim>\<open>check_alerts\<close>. Each works on the pair of the call's
  \<^verbatim>\<open>alerts\<close> list and the global \<^verbatim>\<open>alert_history\<close> and appends the new alert to both; the
  id is read from the history as it stands when the block runs.
\<close>

definition check_landslide ::
    "AlertSettings \<Rightarrow> int \<Rightarrow> string \<Rightarrow> string \<Rightarrow> Alert list \<times> Alert list \<Rightarrow> Alert list \<times> Alert list" where
  "check_landslide settings v loc current_time p =
     (case p of (call_alerts, history) \<Rightarrow>
        if v \<ge> landslide_threshold settings then
          let level = (if v \<ge> 85 then EMERGENCY else if v \<ge> 70 then WARNING else WATCH);
              alert = \<lparr>a_id = int (length history) + 1, a_type = Landslide, a_level = level,
                       a_value = v, a_threshold = landslide_threshold settings,
                       a_message = ''Landslide risk at '' @ str_int v @ ''% exceeds threshold'',
                       a_location = loc, a_timestamp = current_time\<rparr>
          in (call_alerts @ [alert], history @ [alert])
        else (call_alerts, history))"

definition check_flood ::
    "AlertSettings \<Rightarrow> int \<Rightarrow> string \<Rightarrow> string \<Rightarrow> Alert list \<times> Alert list \<Rightarrow> Alert list \<times> Alert list" where
  "check_flood settings v loc current_time p =
     (case p of (call_alerts, history) \<Rightarrow>
        if v \<ge> flood_threshold settings then
          let level = (if v \<ge> 80 then EMERGENCY else if v \<ge> 60 then WARNING else WATCH);
              alert = \<lparr>a_id = int (length history) + 1, a_type = Flood, a_level = level,
                       a_value = v, a_threshold = flood_threshold settings,
                       a_message = ''Flood risk at '' @ str_int v @ ''% exceeds threshold'',
                       a_location = loc, a_timestamp = current_time\<rparr>
          in (call_alerts @ [alert], history @ [alert])
        else (call_alerts, history))"

definition check_rainfall ::
    "AlertSettings \<Rightarrow> int \<Rightarrow> string \<Rightarrow> string \<Rightarrow> Alert list \<times> Alert list \<Rightarrow> Alert list \<times> Alert list" where
  "check_rainfall settings v loc current_time p =
     (case p of (call_alerts, history) \<Rightarrow>
        if v \<ge> rainfall_threshold settings then
          let level = (if v \<ge> 150 then EMERGENCY else if v \<ge> 100 then WARNING else WATCH);
              alert = \<lparr>a_id = int (length history) + 1, a_type = Heavy_Rainfall, a_level = level,
                       a_value = v, a_threshold = rainfall_threshold settings,
                       a_message = ''Rainfall at '' @ str_int v @ ''mm exceeds threshold'',
                       a_location = loc, a_timestamp = current_time\<rparr>
          in (call_alerts @ [alert], history @ [alert])
        else (call_alerts, history))"

text \<open>
  The notification loop. Besides the two flags it returns the provider-facing calls it made,
  in order: one entry for each call of \<^verbatim>\<open>send_email_alert\<close> or \<^verbatim>\<open>send_sms_alert\<close>.
\<close>

datatype channel_call = Email_call string Alert | Sms_call string Alert

fun notify ::
    "environ \<Rightarrow> AlertSettings \<Rightarrow> Alert list \<Rightarrow> bool \<times> bool \<times> channel_call list
       \<Rightarrow> bool \<times> bool \<times> channel_call list" where
  "notify env settings [] acc = acc"
| "notify env settings (alert # rest) (email_sent0, sms_sent0, calls0) =
     (let (email_sent1, calls1) =
            (if enable_email settings \<and> email settings \<noteq> [] then
               (if send_email_alert env (email settings) alert then True else email_sent0,
                calls0 @ [Email_call (email settings) alert])
             else (email_sent0, calls0));
          (sms_sent1, calls2) =
            (if enable_sms settings \<and> phone settings \<noteq> [] then
               (if send_sms_alert env (phone settings) alert then True else sms_sent0,
                calls1 @ [Sms_call (phone settings) alert])
             else (sms_sent0, calls1))
      in notify env settings rest (email_sent1, sms_sent1, calls2))"

text \<open>
  \<^verbatim>\<open>check_alerts\<close> returns the response, the channel calls made, and the stores. A user
  without stored settings gets the early return; \<^verbatim>\<open>if not settings\<close> cannot fire for a
  stored entry, which always has its ten keys.
\<close>

definition check_alerts ::
    "environ \<Rightarrow> check_data \<Rightarrow> string \<Rightarrow> state \<Rightarrow> response \<times> channel_call list \<times> state" where
  "check_alerts env data user_id st =
     (let lr = dict_get (landslide_risk data) 0;
          fr = dict_get (flood_risk data) 0;
          rf = dict_get (rainfall data) 0;
          loc = dict_get (location data) ''Unknown Location''
      in case user_alert_settings st user_id of
           None \<Rightarrow>
             (\<lparr>status = ''success'', message = Some ''No settings configured'', alerts = Some [],
               notification_flags = None, phone_out = None, verified_out = None\<rparr>, [], st)
         | Some settings \<Rightarrow>
             let current_time = strftime_now env;
                 (call_alerts, history) =
                   check_rainfall settings rf loc current_time
                     (check_flood settings fr loc current_time
                        (check_landslide settings lr loc current_time ([], alert_history st)));
                 (e_sent, s_sent, calls) = notify env settings call_alerts (False, False, [])
             in (\<lparr>status = ''success'', message = None, alerts = Some call_alerts,
                  notification_flags = Some \<lparr>email_sent = e_sent, sms_sent = s_sent\<rparr>,
                  phone_out = None, verified_out = None\<rparr>,
                 calls, st\<lparr>alert_history := history\<rparr>))"

subsection \<open>Alert history\<close>

text \<open>\<^verbatim>\<open>alert_history[-limit:] if alert_history else []\<close>\<close>

definition get_alert_history :: "int \<Rightarrow> state \<Rightarrow> response" where
  "get_alert_history limit st =
     \<lparr>status = ''success'', message = None,
      alerts = Some (if alert_history st \<noteq> [] then slice_from (- limit) (alert_history st) else []),
      notification_flags = None, phone_out = None, verified_out = None\<rparr>"

definition clear_alert_history :: "state \<Rightarrow> response \<times> state" where
  "clear_alert_history st =
     (\<lparr>status = ''success'', message = Some ''Alert history cleared'', alerts = None,
       notification_flags = None, phone_out = None, verified_out = None\<rparr>,
      st\<lparr>alert_history := []\<rparr>)"

subsection \<open>OTP verification\<close>

definition otp_body :: "string \<Rightarrow> string" where
  "otp_body code =
     ''Your KAVACH verification code is: '' @ code @ [CHR 0x0A, CHR 0x0A]
       @ ''This code will expire in 10 minutes.'' @ [CHR 0x0A, CHR 0x0A]
       @ ''Do not share this code with anyone.''"

definition error_response :: "string \<Rightarrow> response" where
  "error_response msg =
     \<lparr>status = ''error'', message = Some msg, alerts = None, notification_flags = None,
      phone_out = None, verified_out = None\<rparr>"

text \<open>
  \<^verbatim>\<open>send_verification_otp\<close>; the two arguments after the environment are the keys
  \<^verbatim>\<open>user_id\<close> and \<^verbatim>\<open>phone\<close> of the request body. The record is stored before the
  \<^verbatim>\<open>try\<close> block that talks to Twilio.
\<close>

definition send_verification_otp ::
    "environ \<Rightarrow> string option \<Rightarrow> string option \<Rightarrow> state \<Rightarrow> response \<times> state" where
  "send_verification_otp env user_id_key phone_key st =
     (let user_id = dict_get user_id_key ''default'';
          ph = dict_get phone_key []
      in if ph = [] then (error_response ''Phone number is required'', st)
         else
           let code = str_int (random_randint env 100000 999999);
               exp = datetime_now env + timedelta_minutes 10;
               st1 = st\<lparr>otp_storage := (otp_storage st)(user_id \<mapsto>
                        \<lparr>otp_phone = ph, otp = code, expiry = exp, verified = False\<rparr>)\<rparr>
           in if twilio_configured env then
                (case twilio_messages_create env (otp_body code) (TWILIO_PHONE_NUMBER env)
                        (with_country_code ph) of
                   Returns \<Rightarrow>
                     (\<lparr>status = ''success'', message = Some (''Verification code sent to '' @ ph),
                       alerts = None, notification_flags = None, phone_out = None,
                       verified_out = None\<rparr>, st1)
                 | Raises \<Rightarrow>
                     (error_response ''Failed to send verification code. Please try again later.'',
                      st1))
              else
                (error_response ''SMS service not configured. Please contact administrator.'', st1))"

text \<open>\<^verbatim>\<open>verify_otp\<close>; the keys of the request body are \<^verbatim>\<open>user_id\<close> and \<^verbatim>\<open>otp\<close>.\<close>

definition verify_otp ::
    "environ \<Rightarrow> string option \<Rightarrow> string option \<Rightarrow> state \<Rightarrow> response \<times> state" where
  "verify_otp env user_id_key otp_key st =
     (let user_id = dict_get user_id_key ''default'';
          otp_entered = dict_get otp_key []
      in case otp_storage st user_id of
           None \<Rightarrow> (error_response ''No OTP found. Please request a new one.'', st)
         | Some stored \<Rightarrow>
             if datetime_now env > expiry stored then
               (error_response ''OTP expired. Please request a new one.'',
                st\<lparr>otp_storage := (otp_storage st)(user_id := None)\<rparr>)
             else if otp stored \<noteq> otp_entered then
               (error_response ''Invalid OTP. Please try again.'', st)
             else
               (\<lparr>status = ''success'', message = Some ''Phone number verified successfully!'',
                 alerts = None, notification_flags = None, phone_out = Some (otp_phone stored),
                 verified_out = None\<rparr>,
                st\<lparr>otp_storage := (otp_storage st)(user_id \<mapsto> stored\<lparr>verified := True\<rparr>)\<rparr>))"

definition get_verification_status :: "string \<Rightarrow> state \<Rightarrow> response" where
  "get_verification_status user_id st =
     (case otp_storage st user_id of
        Some stored \<Rightarrow>
          if verified stored then
            \<lparr>status = ''success'', message = None, alerts = None, notification_flags = None,
             phone_out = Some (otp_phone stored), verified_out = Some True\<rparr>
          else
            \<lparr>status = ''success'', message = None, alerts = None, notification_flags = None,
             phone_out = None, verified_out = Some False\<rparr>
      | None \<Rightarrow>
          \<lparr>status = ''success'', message = None, alerts = None, notification_flags = None,
           phone_out = None, verified_out = Some False\<rparr>)"

subsection \<open>The process as a sequence of requests\<close>

text \<open>
  The stores start empty when the module is loaded. A request is served in the environment
  it meets; \<open>handle\<close> returns the alerts the request created together with the stores.
\<close>

definition initial_state :: state where
  "initial_state = \<lparr>alert_history = [], user_alert_settings = Map.empty, otp_storage = Map.empty\<rparr>"

datatype request =
    Save_settings AlertSettings string
  | Check_alerts check_data string
  | Clear_history
  | Send_otp "string option" "string option"
  | Verify_otp "string option" "string option"

fun handle :: "environ \<Rightarrow> request \<Rightarrow> state \<Rightarrow> Alert list \<times> state" where
  "handle env (Save_settings settings user_id) st = ([], snd (save_alert_settings settings user_id st))"
| "handle env (Check_alerts data user_id) st =
     (case check_alerts env data user_id st of
        (resp, calls, st1) \<Rightarrow> (dict_get (alerts resp) [], st1))"
| "handle env Clear_history st = ([], snd (clear_alert_history st))"
| "handle env (Send_otp user_id_key phone_key) st =
     ([], snd (send_verification_otp env user_id_key phone_key st))"
| "handle env (Verify_otp user_id_key otp_key) st =
     ([], snd (verify_otp env user_id_key otp_key st))"

fun serve :: "(environ \<times> request) list \<Rightarrow> state \<Rightarrow> Alert list \<times> state" where
  "serve [] st = ([], st)"
| "serve ((env, req) # rest) st =
     (case handle env req st of
        (created, st1) \<Rightarrow>
          (case serve rest st1 of (later, st2) \<Rightarrow> (created @ later, st2)))"

subsection \<open>Derived notions used in the proofs\<close>

text \<open>
  What one threshold block appends when it runs on a given history, and what the three
  blocks of one call append together (each block sees the history the earlier ones left).
\<close>

definition new_landslide :: "AlertSettings \<Rightarrow> int \<Rightarrow> string \<Rightarrow> string \<Rightarrow> Alert list \<Rightarrow> Alert list" where
  "new_landslide settings v loc current_time history =
     fst (check_landslide settings v loc current_time ([], history))"

definition new_flood :: "AlertSettings \<Rightarrow> int \<Rightarrow> string \<Rightarrow> string \<Rightarrow> Alert list \<Rightarrow> Alert list" where
  "new_flood settings v loc current_time history =
     fst (check_flood settings v loc current_time ([], history))"

definition new_rainfall :: "AlertSettings \<Rightarrow> int \<Rightarrow> string \<Rightarrow> string \<Rightarrow> Alert list \<Rightarrow> Alert list" where
  "new_rainfall settings v loc current_time history =
     fst (check_rainfall settings v loc current_time ([], history))"

definition created :: "AlertSettings \<Rightarrow> check_data \<Rightarrow> string \<Rightarrow> Alert list \<Rightarrow> Alert list" where
  "created settings data current_time history =
     (let loc = dict_get (location data) ''Unknown Location'';
          a = new_landslide settings (dict_get (landslide_risk data) 0) loc current_time history;
          b = new_flood settings (dict_get (flood_risk data) 0) loc current_time (history @ a);
          c = new_rainfall settings (dict_get (rainfall data) 0) loc current_time (history @ a @ b)
      in a @ b @ c)"

text \<open>Concrete inputs for the worked examples.\<close>

definition demo_env :: environ where
  "demo_env =
     \<lparr>RESEND_API_KEY = ''re_key'', TWILIO_ACCOUNT_SID = ''AC1'', TWILIO_AUTH_TOKEN = ''tok'',
      TWILIO_PHONE_NUMBER = ''+15550100'', resend_Emails_send = (\<lambda>_ _. Raises),
      twilio_messages_create = (\<lambda>_ _ _. Returns), strftime_now = ''2026-01-08 16:25:00'',
      datetime_now = 1000000, random_randint = (\<lambda>a b. a)\<rparr>"

definition demo_settings :: AlertSettings where
  "demo_settings =
     \<lparr>email = ''user@example.org'', phone = ''9163615366'', landslide_threshold = 10,
      flood_threshold = 60, rainfall_threshold = 100, enable_email = True, enable_sms = True,
      alert_location = ''Kolkata, India'', alert_lat = None, alert_lng = None\<rparr>"

definition demo_state :: state where
  "demo_state = initial_state\<lparr>user_alert_settings := [''default'' \<mapsto> demo_settings]\<rparr>"

definition demo_data :: check_data where
  "demo_data = \<lparr>landslide_risk = Some 72, flood_risk = Some 80, rainfall = Some 40, location = None\<rparr>"

text \<open>The two alerts that the example request creates on the empty history.\<close>

definition demo_landslide :: Alert where
  "demo_landslide =
     \<lparr>a_id = 1, a_type = Landslide, a_level = WARNING, a_value = 72, a_threshold = 10,
      a_message = ''Landslide risk at 72% exceeds threshold'',
      a_location = ''Unknown Location'', a_timestamp = ''2026-01-08 16:25:00''\<rparr>"

definition demo_flood :: Alert where
  "demo_flood =
     \<lparr>a_id = 2, a_type = Flood, a_level = EMERGENCY, a_value = 80, a_threshold = 60,
      a_message = ''Flood risk at 80% exceeds threshold'',
      a_location = ''Unknown Location'', a_timestamp = ''2026-01-08 16:25:00''\<rparr>"

text \<open>A request whose values all lie below the thresholds of the example user.\<close>

definition quiet_data :: check_data where
  "quiet_data = \<lparr>landslide_risk = Some 5, flood_risk = Some 20, rainfall = None, location = None\<rparr>"

text \<open>
  The outcome of the example call: the e-mail provider raises, Twilio accepts. And the same
  environment with an e-mail provider that accepts.
\<close>

definition demo_response :: response where
  "demo_response =
     \<lparr>status = ''success'', message = None, alerts = Some [demo_landslide, demo_flood],
      notification_flags = Some \<lparr>email_sent = False, sms_sent = True\<rparr>,
      phone_out = None, verified_out = None\<rparr>"

definition demo_calls :: "channel_call list" where
  "demo_calls =
     [Email_call ''user@example.org'' demo_landslide, Sms_call ''9163615366'' demo_landslide,
      Email_call ''user@example.org'' demo_flood, Sms_call ''9163615366'' demo_flood]"

definition demo_env_mail_ok :: environ where
  "demo_env_mail_ok = demo_env\<lparr>resend_Emails_send := (\<lambda>_ _. Returns)\<rparr>"

text \<open>
  An OTP record as issued to the example user at the example time, the stores holding it,
  and the environment eleven and a half minutes later.
\<close>

definition demo_otp :: OtpRecord where
  "demo_otp = \<lparr>otp_phone = ''9163615366'', otp = ''100000'', expiry = 601000000, verified = False\<rparr>"

definition otp_state :: state where
  "otp_state = initial_state\<lparr>otp_storage := [''default'' \<mapsto> demo_otp]\<rparr>"

definition late_env :: environ where
  "late_env = demo_env\<lparr>datetime_now := 700000000\<rparr>"

text \<open>
  Stores in which the example user is already verified, an environment without the Twilio
  account id, and one whose Twilio call raises.
\<close>

definition verified_state :: state where
  "verified_state = initial_state\<lparr>otp_storage := [''default'' \<mapsto> demo_otp\<lparr>verified := True\<rparr>]\<rparr>"

definition no_twilio_env :: environ where
  "no_twilio_env = demo_env\<lparr>TWILIO_ACCOUNT_SID := []\<rparr>"

definition twilio_down_env :: environ where
  "twilio_down_env = demo_env\<lparr>twilio_messages_create := (\<lambda>_ _ _. Raises)\<rparr>"

text \<open>
  Stores with one alert in the history; the predicate that a list of ids counts up by one
  from \<open>n + 1\<close>; and the three requests of the example runs.
\<close>

definition one_alert_state :: state where
  "one_alert_state = demo_state\<lparr>alert_history := [demo_landslide]\<rparr>"

definition consecutive_from :: "int \<Rightarrow> int list \<Rightarrow> bool" where
  "consecutive_from n ids \<longleftrightarrow> map (\<lambda>i. n + 1 + int i) [0..<length ids] = ids"

definition demo_save :: "environ \<times> request" where
  "demo_save = (demo_env, Save_settings demo_settings ''default'')"

definition demo_check :: "environ \<times> request" where
  "demo_check = (demo_env, Check_alerts demo_data ''default'')"

definition demo_clear :: "environ \<times> request" where
  "demo_clear = (demo_env, Clear_history)"

section \<open>Properties\<close>

subsection \<open>The shape of one evaluation call\<close>

lemma check_landslide_app:
  "check_landslide s v loc t (ca, h) = (ca @ new_landslide s v loc t h, h @ new_landslide s v loc t h)"
  by (simp add: check_landslide_def new_landslide_def Let_def)

lemma check_flood_app:
  "check_flood s v loc t (ca, h) = (ca @ new_flood s v loc t h, h @ new_flood s v loc t h)"
  by (simp add: check_flood_def new_flood_def Let_def)

lemma check_rainfall_app:
  "check_rainfall s v loc t (ca, h) = (ca @ new_rainfall s v loc t h, h @ new_rainfall s v loc t h)"
  by (simp add: check_rainfall_def new_rainfall_def Let_def)

lemma blocks_created:
  "check_rainfall s (dict_get (rainfall d) 0) (dict_get (location d) ''Unknown Location'') t
     (check_flood s (dict_get (flood_risk d) 0) (dict_get (location d) ''Unknown Location'') t
        (check_landslide s (dict_get (landslide_risk d) 0)
           (dict_get (location d) ''Unknown Location'') t ([], h)))
   = (created s d t h, h @ created s d t h)"
  by (simp only: check_landslide_app check_flood_app check_rainfall_app created_def Let_def
        append_Nil append_assoc)

text \<open>The loop, solved: the flags are disjunctions over the alerts, the calls a flat map.\<close>

lemma notify_eq:
  "notify env settings als (e0, s0, c0) =
     (e0 \<or> (enable_email settings \<and> email settings \<noteq> [] \<and>
             (\<exists>a \<in> set als. send_email_alert env (email settings) a)),
      s0 \<or> (enable_sms settings \<and> phone settings \<noteq> [] \<and>
             (\<exists>a \<in> set als. send_sms_alert env (phone settings) a)),
      c0 @ concat (map (\<lambda>a.
             (if enable_email settings \<and> email settings \<noteq> []
              then [Email_call (email settings) a] else [])
           @ (if enable_sms settings \<and> phone settings \<noteq> []
              then [Sms_call (phone settings) a] else [])) als))"
  by (induction als arbitrary: e0 s0 c0) auto

lemma check_alerts_configured:
  assumes "user_alert_settings st user_id = Some s"
  shows "check_alerts env d user_id st =
     (\<lparr>status = ''success'', message = None,
       alerts = Some (created s d (strftime_now env) (alert_history st)),
       notification_flags = Some
         \<lparr>email_sent = (enable_email s \<and> email s \<noteq> [] \<and>
             (\<exists>a \<in> set (created s d (strftime_now env) (alert_history st)).
                 send_email_alert env (email s) a)),
          sms_sent = (enable_sms s \<and> phone s \<noteq> [] \<and>
             (\<exists>a \<in> set (created s d (strftime_now env) (alert_history st)).
                 send_sms_alert env (phone s) a))\<rparr>,
       phone_out = None, verified_out = None\<rparr>,
      concat (map (\<lambda>a.
             (if enable_email s \<and> email s \<noteq> [] then [Email_call (email s) a] else [])
           @ (if enable_sms s \<and> phone s \<noteq> [] then [Sms_call (phone s) a] else []))
          (created s d (strftime_now env) (alert_history st))),
      st\<lparr>alert_history := alert_history st @ created s d (strftime_now env) (alert_history st)\<rparr>)"
  unfolding check_alerts_def Let_def
  by (simp only: assms option.case blocks_created notify_eq prod.case simp_thms append_Nil)

lemma check_alerts_unconfigured:
  assumes "user_alert_settings st user_id = None"
  shows "check_alerts env d user_id st =
      (\<lparr>status = ''success'', message = Some ''No settings configured'', alerts = Some [],
        notification_flags = None, phone_out = None, verified_out = None\<rparr>, [], st)"
  unfolding check_alerts_def Let_def
  by (simp only: assms option.case)

text \<open>What each block creates, written out.\<close>

lemma new_landslide_eq:
  "new_landslide s v loc t h =
     (if v \<ge> landslide_threshold s then
        [\<lparr>a_id = int (length h) + 1, a_type = Landslide,
          a_level = (if v \<ge> 85 then EMERGENCY else if v \<ge> 70 then WARNING else WATCH),
          a_value = v, a_threshold = landslide_threshold s,
          a_message = ''Landslide risk at '' @ str_int v @ ''% exceeds threshold'',
          a_location = loc, a_timestamp = t\<rparr>]
      else [])"
  by (simp add: new_landslide_def check_landslide_def Let_def)

lemma new_flood_eq:
  "new_flood s v loc t h =
     (if v \<ge> flood_threshold s then
        [\<lparr>a_id = int (length h) + 1, a_type = Flood,
          a_level = (if v \<ge> 80 then EMERGENCY else if v \<ge> 60 then WARNING else WATCH),
          a_value = v, a_threshold = flood_threshold s,
          a_message = ''Flood risk at '' @ str_int v @ ''% exceeds threshold'',
          a_location = loc, a_timestamp = t\<rparr>]
      else [])"
  by (simp add: new_flood_def check_flood_def Let_def)

lemma new_rainfall_eq:
  "new_rainfall s v loc t h =
     (if v \<ge> rainfall_threshold s then
        [\<lparr>a_id = int (length h) + 1, a_type = Heavy_Rainfall,
          a_level = (if v \<ge> 150 then EMERGENCY else if v \<ge> 100 then WARNING else WATCH),
          a_value = v, a_threshold = rainfall_threshold s,
          a_message = ''Rainfall at '' @ str_int v @ ''mm exceeds threshold'',
          a_location = loc, a_timestamp = t\<rparr>]
      else [])"
  by (simp add: new_rainfall_def check_rainfall_def Let_def)

lemma filter_new_landslide:
  "filter (\<lambda>a. a_type a = ty) (new_landslide s v loc t h) =
     (if ty = Landslide then new_landslide s v loc t h else [])"
  by (simp add: new_landslide_eq)

lemma filter_new_flood:
  "filter (\<lambda>a. a_type a = ty) (new_flood s v loc t h) =
     (if ty = Flood then new_flood s v loc t h else [])"
  by (simp add: new_flood_eq)

lemma filter_new_rainfall:
  "filter (\<lambda>a. a_type a = ty) (new_rainfall s v loc t h) =
     (if ty = Heavy_Rainfall then new_rainfall s v loc t h else [])"
  by (simp add: new_rainfall_eq)

lemma length_new_landslide:
  "length (new_landslide s v loc t h) = (if v \<ge> landslide_threshold s then 1 else 0)"
  by (simp add: new_landslide_eq)

lemma length_new_flood:
  "length (new_flood s v loc t h) = (if v \<ge> flood_threshold s then 1 else 0)"
  by (simp add: new_flood_eq)

lemma length_new_rainfall:
  "length (new_rainfall s v loc t h) = (if v \<ge> rainfall_threshold s then 1 else 0)"
  by (simp add: new_rainfall_eq)

lemma count_created:
  "length (filter (\<lambda>a. a_type a = Landslide) (created s d t h)) =
     (if dict_get (landslide_risk d) 0 \<ge> landslide_threshold s then 1 else 0)"
  "length (filter (\<lambda>a. a_type a = Flood) (created s d t h)) =
     (if dict_get (flood_risk d) 0 \<ge> flood_threshold s then 1 else 0)"
  "length (filter (\<lambda>a. a_type a = Heavy_Rainfall) (created s d t h)) =
     (if dict_get (rainfall d) 0 \<ge> rainfall_threshold s then 1 else 0)"
  by (simp_all add: created_def Let_def filter_new_landslide filter_new_flood filter_new_rainfall
        length_new_landslide length_new_flood length_new_rainfall)

lemma length_created:
  "length (created s d t h) =
     (if dict_get (landslide_risk d) 0 \<ge> landslide_threshold s then 1 else 0)
   + (if dict_get (flood_risk d) 0 \<ge> flood_threshold s then 1 else 0)
   + (if dict_get (rainfall d) 0 \<ge> rainfall_threshold s then 1 else 0)"
  by (simp add: created_def Let_def length_new_landslide length_new_flood length_new_rainfall)

lemma demo_configured: "user_alert_settings demo_state ''default'' = Some demo_settings"
  by (simp add: demo_state_def initial_state_def)

subsection \<open>One alert per metric at or above its threshold\<close>

text \<open>
  Claim C1. When the user has stored settings, the alerts of one call of \<^verbatim>\<open>check_alerts\<close>
  hold exactly one alert of type Landslide if the landslide value is at or above the
  configured landslide threshold and none if it is below, and the same for Flood and for
  Heavy Rainfall, each metric against its own threshold only; so a call returns at most
  three alerts. A metric missing from the request counts as 0.
\<close>

theorem check_alerts_per_metric:
  assumes "user_alert_settings st user_id = Some settings"
  shows "\<exists>als. alerts (fst (check_alerts env data user_id st)) = Some als
     \<and> length (filter (\<lambda>a. a_type a = Landslide) als) =
         (if dict_get (landslide_risk data) 0 \<ge> landslide_threshold settings then 1 else 0)
     \<and> length (filter (\<lambda>a. a_type a = Flood) als) =
         (if dict_get (flood_risk data) 0 \<ge> flood_threshold settings then 1 else 0)
     \<and> length (filter (\<lambda>a. a_type a = Heavy_Rainfall) als) =
         (if dict_get (rainfall data) 0 \<ge> rainfall_threshold settings then 1 else 0)
     \<and> length als \<le> 3"
proof -
  let ?new = "created settings data (strftime_now env) (alert_history st)"
  have "alerts (fst (check_alerts env data user_id st)) = Some ?new"
    by (simp add: check_alerts_configured [OF assms])
  moreover have "length ?new \<le> 3"
    by (simp add: length_created)
  ultimately show ?thesis
    by (simp add: count_created)
qed

text \<open>
  The user of the examples has thresholds 10, 60 and 100 and submits landslide 72, flood 80
  and rainfall 40: one Landslide alert, one Flood alert, no Heavy Rainfall alert.
\<close>

theorem check_alerts_per_metric_witness:
  "user_alert_settings demo_state ''default'' = Some demo_settings
   \<and> (\<exists>als. alerts (fst (check_alerts demo_env demo_data ''default'' demo_state)) = Some als
        \<and> length (filter (\<lambda>a. a_type a = Landslide) als) = 1
        \<and> length (filter (\<lambda>a. a_type a = Flood) als) = 1
        \<and> length (filter (\<lambda>a. a_type a = Heavy_Rainfall) als) = 0
        \<and> length als \<le> 3)"
  using check_alerts_per_metric [OF demo_configured, of demo_env demo_data] demo_configured
  by (simp add: demo_settings_def demo_data_def dict_get_def)

subsection \<open>Severity comes from fixed bands\<close>

lemma created_member:
  assumes "a \<in> set (created s d t h)"
  shows "(a_type a = Landslide \<and> a_value a = dict_get (landslide_risk d) 0
            \<and> a_threshold a = landslide_threshold s \<and> landslide_threshold s \<le> a_value a
            \<and> a_level a = (if a_value a \<ge> 85 then EMERGENCY
                            else if a_value a \<ge> 70 then WARNING else WATCH))
       \<or> (a_type a = Flood \<and> a_value a = dict_get (flood_risk d) 0
            \<and> a_threshold a = flood_threshold s \<and> flood_threshold s \<le> a_value a
            \<and> a_level a = (if a_value a \<ge> 80 then EMERGENCY
                            else if a_value a \<ge> 60 then WARNING else WATCH))
       \<or> (a_type a = Heavy_Rainfall \<and> a_value a = dict_get (rainfall d) 0
            \<and> a_threshold a = rainfall_threshold s \<and> rainfall_threshold s \<le> a_value a
            \<and> a_level a = (if a_value a \<ge> 150 then EMERGENCY
                            else if a_value a \<ge> 100 then WARNING else WATCH))"
proof -
  let ?loc = "dict_get (location d) ''Unknown Location''"
  let ?a = "new_landslide s (dict_get (landslide_risk d) 0) ?loc t h"
  let ?b = "new_flood s (dict_get (flood_risk d) 0) ?loc t (h @ ?a)"
  let ?c = "new_rainfall s (dict_get (rainfall d) 0) ?loc t (h @ ?a @ ?b)"
  from assms have "a \<in> set ?a \<or> a \<in> set ?b \<or> a \<in> set ?c"
    by (simp add: created_def Let_def)
  then consider "a \<in> set ?a" | "a \<in> set ?b" | "a \<in> set ?c" by blast
  then show ?thesis
  proof cases
    case 1
    then show ?thesis by (simp add: new_landslide_eq split: if_splits)
  next
    case 2
    then show ?thesis by (simp add: new_flood_eq split: if_splits)
  next
    case 3
    then show ?thesis by (simp add: new_rainfall_eq split: if_splits)
  qed
qed

lemma response_alerts:
  "alerts (fst (check_alerts env d user_id st)) =
     Some (case user_alert_settings st user_id of
             None \<Rightarrow> []
           | Some s \<Rightarrow> created s d (strftime_now env) (alert_history st))"
  by (cases "user_alert_settings st user_id")
     (simp_all add: check_alerts_unconfigured check_alerts_configured)

lemma str_int_72: "str_int 72 = ''72''"
  by (simp add: str_int_def str_nat.simps digit_char_def)

lemma str_int_80: "str_int 80 = ''80''"
  by (simp add: str_int_def str_nat.simps digit_char_def)

lemma demo_created:
  "created demo_settings demo_data (strftime_now demo_env) (alert_history demo_state)
     = [demo_landslide, demo_flood]"
  by (simp add: created_def Let_def new_landslide_eq new_flood_eq new_rainfall_eq
        demo_settings_def demo_data_def demo_env_def demo_state_def initial_state_def
        dict_get_def demo_landslide_def demo_flood_def str_int_72 str_int_80)

lemma demo_alerts:
  "alerts (fst (check_alerts demo_env demo_data ''default'' demo_state))
     = Some [demo_landslide, demo_flood]"
  by (simp add: response_alerts demo_configured demo_created)

text \<open>
  Claim C2. Every alert in the response of \<^verbatim>\<open>check_alerts\<close> carries the submitted value of
  its metric, and its level is read off that value alone by fixed bands that are closed at
  their lower edge: Landslide is EMERGENCY from 85 and WARNING from 70, Flood is EMERGENCY
  from 80 and WARNING from 60, Heavy Rainfall is EMERGENCY from 150 and WARNING from 100, and
  WATCH below. The configured threshold does not occur in the level.
\<close>

theorem alert_level_fixed_bands:
  assumes "alerts (fst (check_alerts env data user_id st)) = Some als"
      and "a \<in> set als"
  shows "a_level a =
     (case a_type a of
        Landslide \<Rightarrow>
          (if a_value a \<ge> 85 then EMERGENCY else if a_value a \<ge> 70 then WARNING else WATCH)
      | Flood \<Rightarrow>
          (if a_value a \<ge> 80 then EMERGENCY else if a_value a \<ge> 60 then WARNING else WATCH)
      | Heavy_Rainfall \<Rightarrow>
          (if a_value a \<ge> 150 then EMERGENCY else if a_value a \<ge> 100 then WARNING else WATCH))
   \<and> a_value a =
     (case a_type a of
        Landslide \<Rightarrow> dict_get (landslide_risk data) 0
      | Flood \<Rightarrow> dict_get (flood_risk data) 0
      | Heavy_Rainfall \<Rightarrow> dict_get (rainfall data) 0)"
proof (cases "user_alert_settings st user_id")
  case None
  with assms show ?thesis by (simp add: response_alerts)
next
  case (Some s)
  with assms have "a \<in> set (created s data (strftime_now env) (alert_history st))"
    by (simp add: response_alerts)
  from created_member [OF this] show ?thesis by auto
qed

text \<open>
  The two examples of the claim: landslide 72 with the threshold set to 10 is WARNING, and
  flood exactly 80 is EMERGENCY.
\<close>

theorem alert_level_fixed_bands_witness:
  "alerts (fst (check_alerts demo_env demo_data ''default'' demo_state))
     = Some [demo_landslide, demo_flood]
   \<and> demo_landslide \<in> set [demo_landslide, demo_flood]
   \<and> demo_flood \<in> set [demo_landslide, demo_flood]
   \<and> landslide_threshold demo_settings = 10
   \<and> a_type demo_landslide = Landslide \<and> a_value demo_landslide = 72
   \<and> a_level demo_landslide = WARNING
   \<and> a_type demo_flood = Flood \<and> a_value demo_flood = 80
   \<and> a_level demo_flood = EMERGENCY"
  using alert_level_fixed_bands [OF demo_alerts, of demo_landslide]
        alert_level_fixed_bands [OF demo_alerts, of demo_flood] demo_alerts
  by (simp add: demo_landslide_def demo_flood_def demo_settings_def)

lemma created_below:
  assumes "dict_get (landslide_risk d) 0 < landslide_threshold s"
      and "dict_get (flood_risk d) 0 < flood_threshold s"
      and "dict_get (rainfall d) 0 < rainfall_threshold s"
  shows "created s d t h = []"
  using assms by (simp add: created_def Let_def new_landslide_eq new_flood_eq new_rainfall_eq)

subsection \<open>A user without settings\<close>

text \<open>
  Claim C6. For a user with no stored settings \<^verbatim>\<open>check_alerts\<close> returns at once: the
  response has an empty alert list and the message \<^verbatim>\<open>No settings configured\<close>, no channel
  call is made and the stores (the history among them) are unchanged. A user with settings
  whose three values are all below the thresholds also gets an empty alert list, but with no
  message and with both notification flags false, so the two responses differ.
\<close>

theorem check_alerts_not_configured:
  "(user_alert_settings st user_id = None \<longrightarrow>
      check_alerts env data user_id st =
        (\<lparr>status = ''success'', message = Some ''No settings configured'', alerts = Some [],
          notification_flags = None, phone_out = None, verified_out = None\<rparr>, [], st))
   \<and> (user_alert_settings st user_id = Some settings
        \<and> dict_get (landslide_risk data) 0 < landslide_threshold settings
        \<and> dict_get (flood_risk data) 0 < flood_threshold settings
        \<and> dict_get (rainfall data) 0 < rainfall_threshold settings \<longrightarrow>
      check_alerts env data user_id st =
        (\<lparr>status = ''success'', message = None, alerts = Some [],
          notification_flags = Some \<lparr>email_sent = False, sms_sent = False\<rparr>,
          phone_out = None, verified_out = None\<rparr>, [], st))"
proof (intro conjI impI)
  assume "user_alert_settings st user_id = None"
  then show "check_alerts env data user_id st =
        (\<lparr>status = ''success'', message = Some ''No settings configured'', alerts = Some [],
          notification_flags = None, phone_out = None, verified_out = None\<rparr>, [], st)"
    by (rule check_alerts_unconfigured)
next
  assume a: "user_alert_settings st user_id = Some settings
        \<and> dict_get (landslide_risk data) 0 < landslide_threshold settings
        \<and> dict_get (flood_risk data) 0 < flood_threshold settings
        \<and> dict_get (rainfall data) 0 < rainfall_threshold settings"
  then have "created settings data (strftime_now env) (alert_history st) = []"
    by (simp add: created_below)
  with a show "check_alerts env data user_id st =
        (\<lparr>status = ''success'', message = None, alerts = Some [],
          notification_flags = Some \<lparr>email_sent = False, sms_sent = False\<rparr>,
          phone_out = None, verified_out = None\<rparr>, [], st)"
    by (simp add: check_alerts_configured)
qed

text \<open>The fresh process has no settings for \<^verbatim>\<open>default\<close>; the example user has.\<close>

theorem check_alerts_not_configured_witness:
  "user_alert_settings initial_state ''default'' = None
   \<and> check_alerts demo_env demo_data ''default'' initial_state =
        (\<lparr>status = ''success'', message = Some ''No settings configured'', alerts = Some [],
          notification_flags = None, phone_out = None, verified_out = None\<rparr>, [], initial_state)
   \<and> user_alert_settings demo_state ''default'' = Some demo_settings
   \<and> dict_get (landslide_risk quiet_data) 0 < landslide_threshold demo_settings
   \<and> dict_get (flood_risk quiet_data) 0 < flood_threshold demo_settings
   \<and> dict_get (rainfall quiet_data) 0 < rainfall_threshold demo_settings
   \<and> check_alerts demo_env quiet_data ''default'' demo_state =
        (\<lparr>status = ''success'', message = None, alerts = Some [],
          notification_flags = Some \<lparr>email_sent = False, sms_sent = False\<rparr>,
          phone_out = None, verified_out = None\<rparr>, [], demo_state)
   \<and> message (fst (check_alerts demo_env demo_data ''default'' initial_state))
       \<noteq> message (fst (check_alerts demo_env quiet_data ''default'' demo_state))"
  using check_alerts_not_configured
          [where st = initial_state and user_id = "''default''" and env = demo_env
             and data = demo_data and settings = demo_settings]
        check_alerts_not_configured
          [where st = demo_state and user_id = "''default''" and env = demo_env
             and data = quiet_data and settings = demo_settings]
        demo_configured
  by (simp add: initial_state_def quiet_data_def demo_settings_def dict_get_def)

subsection \<open>Notification channels\<close>

lemma demo_check_alerts:
  "check_alerts demo_env demo_data ''default'' demo_state =
     (\<lparr>status = ''success'', message = None, alerts = Some [demo_landslide, demo_flood],
       notification_flags = Some \<lparr>email_sent = False, sms_sent = True\<rparr>,
       phone_out = None, verified_out = None\<rparr>,
      [Email_call ''user@example.org'' demo_landslide, Sms_call ''9163615366'' demo_landslide,
       Email_call ''user@example.org'' demo_flood, Sms_call ''9163615366'' demo_flood],
      demo_state\<lparr>alert_history := [demo_landslide, demo_flood]\<rparr>)"
proof -
  have e: "send_email_alert demo_env to a = False" for to a
    by (simp add: send_email_alert_def demo_env_def)
  have s: "send_sms_alert demo_env to a = True" for to a
    by (simp add: send_sms_alert_def twilio_configured_def demo_env_def)
  have h: "alert_history demo_state = []"
    by (simp add: demo_state_def initial_state_def)
  show ?thesis
    apply (simp only: check_alerts_configured [OF demo_configured] demo_created e s)
    apply (simp add: demo_settings_def h ex_disj_distrib)
    done
qed

text \<open>
  Claim C4. In a call of \<^verbatim>\<open>check_alerts\<close> for a user with settings, \<^verbatim>\<open>send_email_alert\<close>
  is called for an alert exactly when \<^verbatim>\<open>enable_email\<close> is set and the e-mail address is not
  empty (then for every alert of the call, to that address), and \<^verbatim>\<open>send_sms_alert\<close> exactly
  when \<^verbatim>\<open>enable_sms\<close> is set and the phone is not empty. The returned \<^verbatim>\<open>email_sent\<close> is
  true if and only if some alert of the call was attempted over e-mail and its send returned
  true; \<^verbatim>\<open>sms_sent\<close> likewise for SMS.
\<close>

theorem notification_channels_gated:
  assumes "user_alert_settings st user_id = Some settings"
      and "check_alerts env data user_id st = (resp, calls, st1)"
  shows "\<exists>als. alerts resp = Some als
     \<and> (\<forall>to a. Email_call to a \<in> set calls \<longleftrightarrow>
            enable_email settings \<and> email settings \<noteq> [] \<and> to = email settings \<and> a \<in> set als)
     \<and> (\<forall>to a. Sms_call to a \<in> set calls \<longleftrightarrow>
            enable_sms settings \<and> phone settings \<noteq> [] \<and> to = phone settings \<and> a \<in> set als)
     \<and> notification_flags resp = Some
          \<lparr>email_sent = (\<exists>a \<in> set als. Email_call (email settings) a \<in> set calls
                            \<and> send_email_alert env (email settings) a),
           sms_sent = (\<exists>a \<in> set als. Sms_call (phone settings) a \<in> set calls
                            \<and> send_sms_alert env (phone settings) a)\<rparr>"
proof -
  let ?als = "created settings data (strftime_now env) (alert_history st)"
  let ?calls = "concat (map (\<lambda>a.
             (if enable_email settings \<and> email settings \<noteq> [] then [Email_call (email settings) a] else [])
           @ (if enable_sms settings \<and> phone settings \<noteq> [] then [Sms_call (phone settings) a] else []))
          ?als)"
  from assms have r: "alerts resp = Some ?als" and c: "calls = ?calls"
    and f: "notification_flags resp = Some
         \<lparr>email_sent = (enable_email settings \<and> email settings \<noteq> [] \<and>
             (\<exists>a \<in> set ?als. send_email_alert env (email settings) a)),
          sms_sent = (enable_sms settings \<and> phone settings \<noteq> [] \<and>
             (\<exists>a \<in> set ?als. send_sms_alert env (phone settings) a))\<rparr>"
    by (auto simp: check_alerts_configured)
  have e: "Email_call to a \<in> set ?calls \<longleftrightarrow>
            enable_email settings \<and> email settings \<noteq> [] \<and> to = email settings \<and> a \<in> set ?als" for to a
    by auto
  have s: "Sms_call to a \<in> set ?calls \<longleftrightarrow>
            enable_sms settings \<and> phone settings \<noteq> [] \<and> to = phone settings \<and> a \<in> set ?als" for to a
    by auto
  show ?thesis
    unfolding c
    apply (rule exI [of _ ?als])
    apply (simp only: r f e s)
    apply auto
    done
qed


lemma demo_check_alerts':
  "check_alerts demo_env demo_data ''default'' demo_state =
     (demo_response, demo_calls, demo_state\<lparr>alert_history := [demo_landslide, demo_flood]\<rparr>)"
  by (simp only: demo_check_alerts demo_response_def demo_calls_def)

text \<open>
  The example call: both channels are enabled, every e-mail send fails and every SMS send
  succeeds, so \<^verbatim>\<open>email_sent\<close> is false and \<^verbatim>\<open>sms_sent\<close> is true.
\<close>

theorem notification_channels_gated_witness:
  "user_alert_settings demo_state ''default'' = Some demo_settings
   \<and> check_alerts demo_env demo_data ''default'' demo_state =
       (demo_response, demo_calls, demo_state\<lparr>alert_history := [demo_landslide, demo_flood]\<rparr>)
   \<and> (\<exists>als. alerts demo_response = Some als
     \<and> (\<forall>to a. Email_call to a \<in> set demo_calls \<longleftrightarrow>
            enable_email demo_settings \<and> email demo_settings \<noteq> []
            \<and> to = email demo_settings \<and> a \<in> set als)
     \<and> (\<forall>to a. Sms_call to a \<in> set demo_calls \<longleftrightarrow>
            enable_sms demo_settings \<and> phone demo_settings \<noteq> []
            \<and> to = phone demo_settings \<and> a \<in> set als)
     \<and> notification_flags demo_response = Some
          \<lparr>email_sent = (\<exists>a \<in> set als. Email_call (email demo_settings) a \<in> set demo_calls
                            \<and> send_email_alert demo_env (email demo_settings) a),
           sms_sent = (\<exists>a \<in> set als. Sms_call (phone demo_settings) a \<in> set demo_calls
                            \<and> send_sms_alert demo_env (phone demo_settings) a)\<rparr>)
   \<and> notification_flags demo_response = Some \<lparr>email_sent = False, sms_sent = True\<rparr>"
proof -
  have "notification_flags demo_response = Some \<lparr>email_sent = False, sms_sent = True\<rparr>"
    by (simp add: demo_response_def)
  with notification_channels_gated [OF demo_configured demo_check_alerts']
       demo_configured demo_check_alerts'
  show ?thesis by (intro conjI)
qed

lemma response_flags:
  "map_option email_sent (notification_flags (fst (check_alerts env d user_id st))) =
     (case user_alert_settings st user_id of
        None \<Rightarrow> None
      | Some s \<Rightarrow> Some (enable_email s \<and> email s \<noteq> [] \<and>
          (\<exists>a \<in> set (created s d (strftime_now env) (alert_history st)).
              send_email_alert env (email s) a)))"
  "map_option sms_sent (notification_flags (fst (check_alerts env d user_id st))) =
     (case user_alert_settings st user_id of
        None \<Rightarrow> None
      | Some s \<Rightarrow> Some (enable_sms s \<and> phone s \<noteq> [] \<and>
          (\<exists>a \<in> set (created s d (strftime_now env) (alert_history st)).
              send_sms_alert env (phone s) a)))"
  by (cases "user_alert_settings st user_id";
      simp add: check_alerts_unconfigured check_alerts_configured)+

lemma response_rest:
  "snd (check_alerts env d user_id st) =
     (case user_alert_settings st user_id of
        None \<Rightarrow> ([], st)
      | Some s \<Rightarrow>
         (concat (map (\<lambda>a.
             (if enable_email s \<and> email s \<noteq> [] then [Email_call (email s) a] else [])
           @ (if enable_sms s \<and> phone s \<noteq> [] then [Sms_call (phone s) a] else []))
          (created s d (strftime_now env) (alert_history st))),
          st\<lparr>alert_history := alert_history st @ created s d (strftime_now env) (alert_history st)\<rparr>))"
  by (cases "user_alert_settings st user_id")
     (simp_all add: check_alerts_unconfigured check_alerts_configured)

lemma sends_collapse:
  "send_email_alert env to_email alert =
     (RESEND_API_KEY env \<noteq> [] \<and> resend_Emails_send env to_email alert = Returns)"
  "send_sms_alert env to_phone alert =
     (twilio_configured env \<and>
      twilio_messages_create env (sms_body alert) (TWILIO_PHONE_NUMBER env)
        (with_country_code to_phone) = Returns)"
  by (simp_all add: send_email_alert_def send_sms_alert_def split: outcome.split)

text \<open>
  Claim C5. For a user with settings, whatever the providers do: the response holds the
  alert of every metric at or above its threshold (one per such metric, as when every send
  succeeds) and the history grows by them; for every alert of the call an e-mail call is made
  if e-mail is enabled with an address, and an SMS call is made if SMS is enabled with a
  phone, whether or not the e-mail send for that alert succeeded; \<^verbatim>\<open>email_sent\<close> is true
  exactly when some e-mail send returned true and \<^verbatim>\<open>sms_sent\<close> exactly when some SMS send
  returned true, so failing e-mail with one successful SMS gives false and true. In any
  other environment with the same clock the alerts, the calls made and the stores are the
  same. Both send functions return a boolean in every case, true exactly when the provider
  is configured and its call returns: a provider call that raises gives false.
\<close>

theorem channels_isolated:
  assumes "user_alert_settings st user_id = Some settings"
      and "check_alerts env data user_id st = (resp, calls, st1)"
  shows "\<exists>als. alerts resp = Some als
     \<and> length (filter (\<lambda>a. a_type a = Landslide) als) =
         (if dict_get (landslide_risk data) 0 \<ge> landslide_threshold settings then 1 else 0)
     \<and> length (filter (\<lambda>a. a_type a = Flood) als) =
         (if dict_get (flood_risk data) 0 \<ge> flood_threshold settings then 1 else 0)
     \<and> length (filter (\<lambda>a. a_type a = Heavy_Rainfall) als) =
         (if dict_get (rainfall data) 0 \<ge> rainfall_threshold settings then 1 else 0)
     \<and> alert_history st1 = alert_history st @ als
     \<and> (\<forall>a \<in> set als. enable_email settings \<and> email settings \<noteq> [] \<longrightarrow>
            Email_call (email settings) a \<in> set calls)
     \<and> (\<forall>a \<in> set als. enable_sms settings \<and> phone settings \<noteq> [] \<longrightarrow>
            Sms_call (phone settings) a \<in> set calls)
     \<and> notification_flags resp = Some
          \<lparr>email_sent = (enable_email settings \<and> email settings \<noteq> [] \<and>
                          (\<exists>a \<in> set als. send_email_alert env (email settings) a)),
           sms_sent = (enable_sms settings \<and> phone settings \<noteq> [] \<and>
                          (\<exists>a \<in> set als. send_sms_alert env (phone settings) a))\<rparr>
     \<and> ((\<forall>a \<in> set als. \<not> send_email_alert env (email settings) a)
          \<and> enable_sms settings \<and> phone settings \<noteq> []
          \<and> (\<exists>a \<in> set als. send_sms_alert env (phone settings) a) \<longrightarrow>
            notification_flags resp = Some \<lparr>email_sent = False, sms_sent = True\<rparr>)
     \<and> (\<forall>env'. strftime_now env' = strftime_now env \<longrightarrow>
            alerts (fst (check_alerts env' data user_id st)) = Some als
          \<and> snd (check_alerts env' data user_id st) = (calls, st1))
     \<and> (\<forall>to_email a. send_email_alert env to_email a =
            (RESEND_API_KEY env \<noteq> [] \<and> resend_Emails_send env to_email a = Returns))
     \<and> (\<forall>to_phone a. send_sms_alert env to_phone a =
            (twilio_configured env \<and>
             twilio_messages_create env (sms_body a) (TWILIO_PHONE_NUMBER env)
               (with_country_code to_phone) = Returns))"
proof -
  let ?als = "created settings data (strftime_now env) (alert_history st)"
  let ?calls = "concat (map (\<lambda>a.
             (if enable_email settings \<and> email settings \<noteq> []
              then [Email_call (email settings) a] else [])
           @ (if enable_sms settings \<and> phone settings \<noteq> []
              then [Sms_call (phone settings) a] else [])) ?als)"
  from assms have r: "alerts resp = Some ?als" and c: "calls = ?calls"
    and h: "alert_history st1 = alert_history st @ ?als"
    and f: "notification_flags resp = Some
         \<lparr>email_sent = (enable_email settings \<and> email settings \<noteq> [] \<and>
             (\<exists>a \<in> set ?als. send_email_alert env (email settings) a)),
          sms_sent = (enable_sms settings \<and> phone settings \<noteq> [] \<and>
             (\<exists>a \<in> set ?als. send_sms_alert env (phone settings) a))\<rparr>"
    by (auto simp: check_alerts_configured)
  have e: "\<forall>a \<in> set ?als. enable_email settings \<and> email settings \<noteq> [] \<longrightarrow>
            Email_call (email settings) a \<in> set calls"
    unfolding c by auto
  have s: "\<forall>a \<in> set ?als. enable_sms settings \<and> phone settings \<noteq> [] \<longrightarrow>
            Sms_call (phone settings) a \<in> set calls"
    unfolding c by auto
  have x: "(\<forall>a \<in> set ?als. \<not> send_email_alert env (email settings) a)
          \<and> enable_sms settings \<and> phone settings \<noteq> []
          \<and> (\<exists>a \<in> set ?als. send_sms_alert env (phone settings) a) \<longrightarrow>
            notification_flags resp = Some \<lparr>email_sent = False, sms_sent = True\<rparr>"
    unfolding f by auto
  have i: "\<forall>env'. strftime_now env' = strftime_now env \<longrightarrow>
            alerts (fst (check_alerts env' data user_id st)) = Some ?als
          \<and> snd (check_alerts env' data user_id st) = (calls, st1)"
  proof (intro allI impI)
    fix env' :: environ
    assume t: "strftime_now env' = strftime_now env"
    from assms(2) have "snd (check_alerts env data user_id st) = (calls, st1)" by simp
    then show "alerts (fst (check_alerts env' data user_id st)) = Some ?als
          \<and> snd (check_alerts env' data user_id st) = (calls, st1)"
      by (simp add: check_alerts_configured [OF assms(1)] t)
  qed
  show ?thesis
    apply (rule exI [of _ ?als])
    apply (intro conjI)
              apply (rule r)
             apply (rule count_created(1))
            apply (rule count_created(2))
           apply (rule count_created(3))
          apply (rule h)
         apply (rule e)
        apply (rule s)
        apply (rule f)
       apply (rule x)
      apply (rule i)
     apply (intro allI, rule sends_collapse(1))
    apply (intro allI, rule sends_collapse(2))
    done
qed


text \<open>
  The example of the claim: the e-mail provider raises on every send and Twilio accepts.
  Both alerts are returned, the SMS call is made for each of them after its failed e-mail,
  and the response reports \<^verbatim>\<open>email_sent\<close> false and \<^verbatim>\<open>sms_sent\<close> true; with an e-mail
  provider that accepts, the alerts, the calls and the stores are the same.
\<close>

theorem channels_isolated_witness:
  "user_alert_settings demo_state ''default'' = Some demo_settings
   \<and> check_alerts demo_env demo_data ''default'' demo_state =
       (demo_response, demo_calls, demo_state\<lparr>alert_history := [demo_landslide, demo_flood]\<rparr>)
   \<and> alerts demo_response = Some [demo_landslide, demo_flood]
   \<and> resend_Emails_send demo_env ''user@example.org'' demo_landslide = Raises
   \<and> send_email_alert demo_env ''user@example.org'' demo_landslide = False
   \<and> send_email_alert demo_env ''user@example.org'' demo_flood = False
   \<and> Sms_call ''9163615366'' demo_landslide \<in> set demo_calls
   \<and> Sms_call ''9163615366'' demo_flood \<in> set demo_calls
   \<and> send_sms_alert demo_env ''9163615366'' demo_landslide = True
   \<and> notification_flags demo_response = Some \<lparr>email_sent = False, sms_sent = True\<rparr>
   \<and> strftime_now demo_env_mail_ok = strftime_now demo_env
   \<and> alerts (fst (check_alerts demo_env_mail_ok demo_data ''default'' demo_state))
       = Some [demo_landslide, demo_flood]
   \<and> snd (check_alerts demo_env_mail_ok demo_data ''default'' demo_state)
       = (demo_calls, demo_state\<lparr>alert_history := [demo_landslide, demo_flood]\<rparr>)"
proof -
  from channels_isolated [OF demo_configured demo_check_alerts']
  obtain als where a: "alerts demo_response = Some als"
    and se: "\<forall>a \<in> set als. enable_sms demo_settings \<and> phone demo_settings \<noteq> [] \<longrightarrow>
               Sms_call (phone demo_settings) a \<in> set demo_calls"
    and x: "(\<forall>a \<in> set als. \<not> send_email_alert demo_env (email demo_settings) a)
          \<and> enable_sms demo_settings \<and> phone demo_settings \<noteq> []
          \<and> (\<exists>a \<in> set als. send_sms_alert demo_env (phone demo_settings) a) \<longrightarrow>
            notification_flags demo_response = Some \<lparr>email_sent = False, sms_sent = True\<rparr>"
    and i: "\<forall>env'. strftime_now env' = strftime_now demo_env \<longrightarrow>
            alerts (fst (check_alerts env' demo_data ''default'' demo_state)) = Some als
          \<and> snd (check_alerts env' demo_data ''default'' demo_state) =
              (demo_calls, demo_state\<lparr>alert_history := [demo_landslide, demo_flood]\<rparr>)"
    and ce: "\<forall>to_email a. send_email_alert demo_env to_email a =
            (RESEND_API_KEY demo_env \<noteq> [] \<and> resend_Emails_send demo_env to_email a = Returns)"
    and cs: "\<forall>to_phone a. send_sms_alert demo_env to_phone a =
            (twilio_configured demo_env \<and>
             twilio_messages_create demo_env (sms_body a) (TWILIO_PHONE_NUMBER demo_env)
               (with_country_code to_phone) = Returns)"
    by (elim exE conjE)
  have als: "als = [demo_landslide, demo_flood]"
    using a by (simp add: demo_response_def)
  have r: "resend_Emails_send demo_env to a = Raises" for to a
    by (simp add: demo_env_def)
  have k: "twilio_configured demo_env"
          "twilio_messages_create demo_env b f p = Returns" for b f p
    by (simp_all add: twilio_configured_def demo_env_def)
  have em: "send_email_alert demo_env to a = False" for to a
    by (simp add: ce r)
  have sm: "send_sms_alert demo_env to a = True" for to a
    by (simp add: cs k)
  have g: "enable_sms demo_settings" "phone demo_settings = ''9163615366''"
          "email demo_settings = ''user@example.org''"
    by (simp_all add: demo_settings_def)
  have c1: "Sms_call ''9163615366'' demo_landslide \<in> set demo_calls"
    and c2: "Sms_call ''9163615366'' demo_flood \<in> set demo_calls"
    using se by (simp_all add: als g)
  have fl: "notification_flags demo_response = Some \<lparr>email_sent = False, sms_sent = True\<rparr>"
    using x by (simp add: als g em sm ex_disj_distrib)
  have t: "strftime_now demo_env_mail_ok = strftime_now demo_env"
    by (simp add: demo_env_mail_ok_def)
  from i t have j: "alerts (fst (check_alerts demo_env_mail_ok demo_data ''default'' demo_state))
       = Some [demo_landslide, demo_flood]"
    "snd (check_alerts demo_env_mail_ok demo_data ''default'' demo_state)
       = (demo_calls, demo_state\<lparr>alert_history := [demo_landslide, demo_flood]\<rparr>)"
    by (simp_all add: als)
  show ?thesis
    by (intro conjI demo_configured demo_check_alerts' a [unfolded als] r em c1 c2 sm fl t j)
qed

subsection \<open>Decimal strings\<close>

lemma digit_char_digit: "digit_char d \<in> set ''0123456789''"
  by (simp add: digit_char_def)

lemma digit_char_zero: "d < 10 \<Longrightarrow> digit_char d = CHR ''0'' \<longleftrightarrow> d = 0"
  by (simp add: digit_char_def)

lemma str_nat_nonempty: "str_nat n \<noteq> []"
  by (subst str_nat.simps) simp

lemma set_str_nat: "set (str_nat n) \<subseteq> set ''0123456789''"
proof (induction n rule: str_nat.induct)
  case (1 n)
  show ?case
  proof (cases "n < 10")
    case True
    then show ?thesis
      using digit_char_digit [of n] by (subst str_nat.simps) simp
  next
    case False
    with 1 have "set (str_nat (n div 10)) \<subseteq> set ''0123456789''" by simp
    with False show ?thesis
      using digit_char_digit [of "n mod 10"] by (subst str_nat.simps) simp
  qed
qed

lemma hd_str_nat: "0 < n \<Longrightarrow> hd (str_nat n) \<noteq> CHR ''0''"
proof (induction n rule: str_nat.induct)
  case (1 n)
  show ?case
  proof (cases "n < 10")
    case True
    with 1(2) show ?thesis
      by (subst str_nat.simps) (simp add: digit_char_zero)
  next
    case False
    then have "0 < n div 10" by simp
    with 1(1) False have "hd (str_nat (n div 10)) \<noteq> CHR ''0''" by simp
    with False show ?thesis
      by (subst str_nat.simps) (simp add: str_nat_nonempty)
  qed
qed

lemma length_str_nat_step:
  "10 \<le> n \<Longrightarrow> length (str_nat n) = Suc (length (str_nat (n div 10)))"
  by (subst str_nat.simps) simp

lemma length_str_nat_1: "n < 10 \<Longrightarrow> length (str_nat n) = 1"
  by (subst str_nat.simps) simp

lemma length_str_nat_2:
  assumes "10 \<le> n" and "n < 100"
  shows "length (str_nat n) = 2"
proof -
  from assms have "n div 10 < 10" by simp
  then have "length (str_nat (n div 10)) = 1" by (rule length_str_nat_1)
  moreover from assms have "10 \<le> n" by simp
  ultimately show ?thesis by (simp only: length_str_nat_step)
qed

lemma length_str_nat_3:
  assumes "100 \<le> n" and "n < 1000"
  shows "length (str_nat n) = 3"
proof -
  from assms have "10 \<le> n div 10" and "n div 10 < 100" by simp_all
  then have "length (str_nat (n div 10)) = 2" by (rule length_str_nat_2)
  moreover from assms have "10 \<le> n" by simp
  ultimately show ?thesis by (simp only: length_str_nat_step)
qed

lemma length_str_nat_4:
  assumes "1000 \<le> n" and "n < 10000"
  shows "length (str_nat n) = 4"
proof -
  from assms have "100 \<le> n div 10" and "n div 10 < 1000" by simp_all
  then have "length (str_nat (n div 10)) = 3" by (rule length_str_nat_3)
  moreover from assms have "10 \<le> n" by simp
  ultimately show ?thesis by (simp only: length_str_nat_step)
qed

lemma length_str_nat_5:
  assumes "10000 \<le> n" and "n < 100000"
  shows "length (str_nat n) = 5"
proof -
  from assms have "1000 \<le> n div 10" and "n div 10 < 10000" by simp_all
  then have "length (str_nat (n div 10)) = 4" by (rule length_str_nat_4)
  moreover from assms have "10 \<le> n" by simp
  ultimately show ?thesis by (simp only: length_str_nat_step)
qed

lemma length_str_nat_6:
  assumes "100000 \<le> n" and "n < 1000000"
  shows "length (str_nat n) = 6"
proof -
  from assms have "10000 \<le> n div 10" and "n div 10 < 100000" by simp_all
  then have "length (str_nat (n div 10)) = 5" by (rule length_str_nat_5)
  moreover from assms have "10 \<le> n" by simp
  ultimately show ?thesis by (simp only: length_str_nat_step)
qed

lemma otp_code_shape:
  assumes "100000 \<le> r" and "r \<le> 999999"
  shows "length (str_int r) = 6 \<and> set (str_int r) \<subseteq> set ''0123456789''
         \<and> hd (str_int r) \<noteq> CHR ''0''"
proof -
  from assms have "str_int r = str_nat (nat r)" and "100000 \<le> nat r" and "nat r < 1000000"
    and "0 < nat r"
    by (simp_all add: str_int_def)
  then show ?thesis
    using set_str_nat [of "nat r"] hd_str_nat [of "nat r"] length_str_nat_6 [of "nat r"]
    by simp
qed

lemma str_int_100000: "str_int 100000 = ''100000''"
  by (simp add: str_int_def str_nat.simps digit_char_def)


subsection \<open>Verifying an OTP\<close>

text \<open>
  Claim C3. \<^verbatim>\<open>verify_otp\<close> for a user: with no stored record it returns the error
  \<^verbatim>\<open>No OTP found\<close> and changes nothing; with a record whose expiry lies before the current
  time it returns the error \<^verbatim>\<open>OTP expired\<close> and deletes the record; with a record that has
  not expired and a code that differs from the entered string it returns the error
  \<^verbatim>\<open>Invalid OTP\<close> and leaves the stores as they were; with the matching code it returns
  success with the stored phone and the record stays, now with \<^verbatim>\<open>verified\<close> true.
\<close>

theorem verify_otp_state_machine:
  assumes "user_id = dict_get user_id_key ''default''"
      and "otp_entered = dict_get otp_key []"
  shows "(otp_storage st user_id = None \<longrightarrow>
            verify_otp env user_id_key otp_key st =
              (error_response ''No OTP found. Please request a new one.'', st))
       \<and> (\<forall>stored. otp_storage st user_id = Some stored \<longrightarrow>
            (datetime_now env > expiry stored \<longrightarrow>
               verify_otp env user_id_key otp_key st =
                 (error_response ''OTP expired. Please request a new one.'',
                  st\<lparr>otp_storage := (otp_storage st)(user_id := None)\<rparr>))
          \<and> (datetime_now env \<le> expiry stored \<and> otp stored \<noteq> otp_entered \<longrightarrow>
               verify_otp env user_id_key otp_key st =
                 (error_response ''Invalid OTP. Please try again.'', st))
          \<and> (datetime_now env \<le> expiry stored \<and> otp stored = otp_entered \<longrightarrow>
               verify_otp env user_id_key otp_key st =
                 (\<lparr>status = ''success'', message = Some ''Phone number verified successfully!'',
                   alerts = None, notification_flags = None,
                   phone_out = Some (otp_phone stored), verified_out = None\<rparr>,
                  st\<lparr>otp_storage := (otp_storage st)(user_id \<mapsto> stored\<lparr>verified := True\<rparr>)\<rparr>)))"
  using assms by (simp add: verify_otp_def Let_def)

text \<open>
  The four cases on concrete stores: a fresh process; the example record checked after its
  expiry; a wrong code in time; the right code in time.
\<close>

theorem verify_otp_state_machine_witness:
  "otp_storage initial_state ''default'' = None
   \<and> verify_otp demo_env None (Some ''100000'') initial_state =
       (error_response ''No OTP found. Please request a new one.'', initial_state)
   \<and> otp_storage otp_state ''default'' = Some demo_otp
   \<and> datetime_now late_env > expiry demo_otp
   \<and> verify_otp late_env None (Some ''100000'') otp_state =
       (error_response ''OTP expired. Please request a new one.'',
        otp_state\<lparr>otp_storage := (otp_storage otp_state)(''default'' := None)\<rparr>)
   \<and> datetime_now demo_env \<le> expiry demo_otp
   \<and> otp demo_otp \<noteq> ''999999''
   \<and> verify_otp demo_env None (Some ''999999'') otp_state =
       (error_response ''Invalid OTP. Please try again.'', otp_state)
   \<and> otp demo_otp = ''100000''
   \<and> verify_otp demo_env None (Some ''100000'') otp_state =
       (\<lparr>status = ''success'', message = Some ''Phone number verified successfully!'',
         alerts = None, notification_flags = None,
         phone_out = Some ''9163615366'', verified_out = None\<rparr>,
        otp_state\<lparr>otp_storage := (otp_storage otp_state)(''default'' \<mapsto> demo_otp\<lparr>verified := True\<rparr>)\<rparr>)"
proof -
  have u: "''default'' = dict_get None ''default''"
    by (simp add: dict_get_def)
  have a: "''100000'' = dict_get (Some ''100000'') []" and b: "''999999'' = dict_get (Some ''999999'') []"
    by (simp_all add: dict_get_def)
  have s0: "otp_storage initial_state ''default'' = None"
    by (simp add: initial_state_def)
  have s1: "otp_storage otp_state ''default'' = Some demo_otp"
    by (simp add: otp_state_def)
  have t: "datetime_now late_env > expiry demo_otp" "datetime_now demo_env \<le> expiry demo_otp"
    by (simp_all add: late_env_def demo_env_def demo_otp_def)
  have c: "otp demo_otp \<noteq> ''999999''" "otp demo_otp = ''100000''"
       "otp_phone demo_otp = ''9163615366''"
    by (simp_all add: demo_otp_def)
  from verify_otp_state_machine [OF u a, of initial_state demo_env]
       verify_otp_state_machine [OF u a, of otp_state late_env]
       verify_otp_state_machine [OF u b, of otp_state demo_env]
       verify_otp_state_machine [OF u a, of otp_state demo_env]
  show ?thesis
    using s0 s1 t c by simp
qed

subsection \<open>Issuing an OTP\<close>

lemma send_verification_otp_stores:
  assumes "dict_get phone_key [] \<noteq> []"
  shows "snd (send_verification_otp env user_id_key phone_key st) =
     st\<lparr>otp_storage := (otp_storage st)(dict_get user_id_key ''default'' \<mapsto>
          \<lparr>otp_phone = dict_get phone_key [],
           otp = str_int (random_randint env 100000 999999),
           expiry = datetime_now env + timedelta_minutes 10, verified = False\<rparr>)\<rparr>"
  using assms by (simp add: send_verification_otp_def Let_def split: outcome.split)

lemma send_verification_otp_response:
  assumes "dict_get phone_key [] \<noteq> []"
  shows "fst (send_verification_otp env user_id_key phone_key st) =
     (if twilio_configured env then
        (case twilio_messages_create env (otp_body (str_int (random_randint env 100000 999999)))
                (TWILIO_PHONE_NUMBER env) (with_country_code (dict_get phone_key [])) of
           Returns \<Rightarrow>
             \<lparr>status = ''success'',
              message = Some (''Verification code sent to '' @ dict_get phone_key []),
              alerts = None, notification_flags = None, phone_out = None, verified_out = None\<rparr>
         | Raises \<Rightarrow>
             error_response ''Failed to send verification code. Please try again later.'')
      else error_response ''SMS service not configured. Please contact administrator.'')"
  using assms by (simp add: send_verification_otp_def Let_def split: outcome.split)

text \<open>
  Claim C10. A call of \<^verbatim>\<open>send_verification_otp\<close> with a non-empty phone leaves, for its
  user, the new record (the phone, the fresh code, expiry ten minutes after now,
  \<^verbatim>\<open>verified\<close> false) in \<^verbatim>\<open>otp_storage\<close> whatever record was there before and whatever the
  provider does: the record is there also when the call returns the error of an unconfigured
  provider or the error of a failed send.
\<close>

theorem otp_record_replaced_before_delivery:
  assumes "dict_get phone_key [] \<noteq> []"
  shows "otp_storage (snd (send_verification_otp env user_id_key phone_key st))
           (dict_get user_id_key ''default'') =
         Some \<lparr>otp_phone = dict_get phone_key [],
               otp = str_int (random_randint env 100000 999999),
               expiry = datetime_now env + timedelta_minutes 10, verified = False\<rparr>
       \<and> (\<not> twilio_configured env \<longrightarrow>
            fst (send_verification_otp env user_id_key phone_key st) =
              error_response ''SMS service not configured. Please contact administrator.'')
       \<and> (twilio_configured env \<and>
            twilio_messages_create env (otp_body (str_int (random_randint env 100000 999999)))
              (TWILIO_PHONE_NUMBER env) (with_country_code (dict_get phone_key [])) = Raises \<longrightarrow>
            fst (send_verification_otp env user_id_key phone_key st) =
              error_response ''Failed to send verification code. Please try again later.'')"
  by (simp add: send_verification_otp_stores [OF assms] send_verification_otp_response [OF assms])

text \<open>
  The example user is verified; a new code is requested while Twilio is unconfigured, and
  while Twilio raises. Both calls return their error, and both leave the unverified record.
\<close>

theorem otp_record_replaced_before_delivery_witness:
  "dict_get (Some ''9163615366'') [] \<noteq> []
   \<and> otp_storage verified_state ''default'' = Some (demo_otp\<lparr>verified := True\<rparr>)
   \<and> \<not> twilio_configured no_twilio_env
   \<and> fst (send_verification_otp no_twilio_env None (Some ''9163615366'') verified_state) =
       error_response ''SMS service not configured. Please contact administrator.''
   \<and> otp_storage (snd (send_verification_otp no_twilio_env None (Some ''9163615366'') verified_state))
       ''default'' = Some demo_otp
   \<and> twilio_configured twilio_down_env
   \<and> twilio_messages_create twilio_down_env (otp_body ''100000'') ''+15550100'' ''+919163615366''
       = Raises
   \<and> fst (send_verification_otp twilio_down_env None (Some ''9163615366'') verified_state) =
       error_response ''Failed to send verification code. Please try again later.''
   \<and> otp_storage (snd (send_verification_otp twilio_down_env None (Some ''9163615366'') verified_state))
       ''default'' = Some demo_otp"
proof -
  have p: "dict_get (Some ''9163615366'') [] \<noteq> []"
    by (simp add: dict_get_def)
  have v: "otp_storage verified_state ''default'' = Some (demo_otp\<lparr>verified := True\<rparr>)"
    by (simp add: verified_state_def)
  have c: "\<not> twilio_configured no_twilio_env" "twilio_configured twilio_down_env"
    by (simp_all add: twilio_configured_def no_twilio_env_def twilio_down_env_def demo_env_def)
  have d: "twilio_messages_create twilio_down_env b f t = Raises" for b f t
    by (simp add: twilio_down_env_def)
  have e: "random_randint no_twilio_env 100000 999999 = 100000"
          "random_randint twilio_down_env 100000 999999 = 100000"
          "datetime_now no_twilio_env = 1000000" "datetime_now twilio_down_env = 1000000"
    by (simp_all add: no_twilio_env_def twilio_down_env_def demo_env_def)
  from otp_record_replaced_before_delivery [OF p, of no_twilio_env None verified_state]
       otp_record_replaced_before_delivery [OF p, of twilio_down_env None verified_state]
  show ?thesis
    using p v c d e
    by (simp add: dict_get_def str_int_100000 timedelta_minutes_def demo_otp_def)
qed

lemma send_verification_otp_no_phone:
  assumes "dict_get phone_key [] = []"
  shows "send_verification_otp env user_id_key phone_key st =
           (error_response ''Phone number is required'', st)"
  using assms by (simp add: send_verification_otp_def Let_def)

lemma send_verification_otp_record:
  assumes p: "dict_get phone_key [] \<noteq> []"
  shows "otp_storage (snd (send_verification_otp env user_id_key phone_key st))
           (dict_get user_id_key ''default'') =
         Some \<lparr>otp_phone = dict_get phone_key [],
               otp = str_int (random_randint env 100000 999999),
               expiry = datetime_now env + 600000000, verified = False\<rparr>"
  by (simp add: send_verification_otp_stores [OF p] timedelta_minutes_def)

lemma send_verification_otp_unconfigured:
  assumes p: "dict_get phone_key [] \<noteq> []" and "\<not> twilio_configured env"
  shows "fst (send_verification_otp env user_id_key phone_key st) =
           error_response ''SMS service not configured. Please contact administrator.''"
  using assms by (simp add: send_verification_otp_response [OF p])

lemma send_verification_otp_any_code:
  assumes p: "dict_get phone_key [] \<noteq> []"
  shows "\<exists>env'. random_randint env' 100000 999999 = c \<and>
           map_option otp
             (otp_storage (snd (send_verification_otp env' user_id_key phone_key st))
                (dict_get user_id_key ''default'')) = Some (str_int c)"
proof -
  let ?env = "demo_env\<lparr>random_randint := (\<lambda>_ _. c)\<rparr>"
  have w: "random_randint ?env 100000 999999 = c \<and>
        map_option otp
          (otp_storage (snd (send_verification_otp ?env user_id_key phone_key st))
             (dict_get user_id_key ''default'')) = Some (str_int c)"
    by (simp add: send_verification_otp_stores [OF p])
  show ?thesis
    apply (rule exI [of _ ?env])
    apply (rule w)
    done
qed

lemma error_responses_differ:
  "error_response ''Phone number is required''
     \<noteq> error_response ''SMS service not configured. Please contact administrator.''"
  by (simp add: error_response_def)

lemma send_verification_otp_issued:
  fixes env :: environ
  assumes "100000 \<le> random_randint env 100000 999999"
      and "random_randint env 100000 999999 \<le> 999999"
      and p: "dict_get phone_key [] \<noteq> []"
  shows "\<exists>code. otp_storage (snd (send_verification_otp env user_id_key phone_key st))
                       (dict_get user_id_key ''default'') =
                     Some \<lparr>otp_phone = dict_get phone_key [], otp = code,
                           expiry = datetime_now env + 600000000, verified = False\<rparr>
                \<and> code = str_int (random_randint env 100000 999999)
                \<and> length code = 6 \<and> set code \<subseteq> set ''0123456789'' \<and> hd code \<noteq> CHR ''0''"
proof -
  let ?code = "str_int (random_randint env 100000 999999)"
  note s = otp_code_shape [OF assms(1,2)]
  have l: "length ?code = 6"
    using s by (rule conjunct1)
  have d: "set ?code \<subseteq> set ''0123456789''"
    using s by (rule conjunct2 [THEN conjunct1])
  have h: "hd ?code \<noteq> CHR ''0''"
    using s by (rule conjunct2 [THEN conjunct2])
  note r = send_verification_otp_record [OF p, of env user_id_key st]
  show ?thesis
    apply (rule exI [of _ ?code])
    apply (rule conjI)
     apply (rule r)
    apply (rule conjI)
     apply (rule refl)
    apply (rule conjI)
     apply (rule l)
    apply (rule conjI)
     apply (rule d)
    apply (rule h)
    done
qed

lemma send_verification_otp_all_codes:
  assumes p: "dict_get phone_key [] \<noteq> []"
  shows "\<forall>c. 100000 \<le> c \<and> c \<le> 999999 \<longrightarrow>
           (\<exists>env'. random_randint env' 100000 999999 = c \<and>
              map_option otp
                (otp_storage (snd (send_verification_otp env' user_id_key phone_key st))
                   (dict_get user_id_key ''default'')) = Some (str_int c))"
  apply (rule allI)
  apply (rule impI)
  apply (rule send_verification_otp_any_code [OF p])
  done

text \<open>
  Claim C8, as amended. The code is \<^verbatim>\<open>str(random.randint(100000, 999999))\<close>: with the draw
  in its range, a call with a non-empty phone stores for its user, over whatever was stored
  before, the record with that phone, the decimal form of the draw (six digits, the first
  one not zero), expiry now plus ten minutes and \<^verbatim>\<open>verified\<close> false; every number from
  100000 to 999999 can be the draw and then its decimal form is the code. A call with an
  empty or missing phone returns the error \<^verbatim>\<open>Phone number is required\<close> and changes
  nothing; with a phone and Twilio unconfigured the response is a different error.
\<close>

theorem send_verification_otp_issues:
  assumes "100000 \<le> random_randint env 100000 999999"
      and "random_randint env 100000 999999 \<le> 999999"
  shows "(dict_get phone_key [] = [] \<longrightarrow>
            send_verification_otp env user_id_key phone_key st =
              (error_response ''Phone number is required'', st))
       \<and> (dict_get phone_key [] \<noteq> [] \<longrightarrow>
            (\<exists>code. otp_storage (snd (send_verification_otp env user_id_key phone_key st))
                       (dict_get user_id_key ''default'') =
                     Some \<lparr>otp_phone = dict_get phone_key [], otp = code,
                           expiry = datetime_now env + 600000000, verified = False\<rparr>
                \<and> code = str_int (random_randint env 100000 999999)
                \<and> length code = 6 \<and> set code \<subseteq> set ''0123456789'' \<and> hd code \<noteq> CHR ''0'')
          \<and> (\<not> twilio_configured env \<longrightarrow>
                fst (send_verification_otp env user_id_key phone_key st) =
                  error_response ''SMS service not configured. Please contact administrator.'')
          \<and> (\<forall>c. 100000 \<le> c \<and> c \<le> 999999 \<longrightarrow>
                (\<exists>env'. random_randint env' 100000 999999 = c \<and>
                   map_option otp
                     (otp_storage (snd (send_verification_otp env' user_id_key phone_key st))
                        (dict_get user_id_key ''default'')) = Some (str_int c))))
       \<and> error_response ''Phone number is required''
            \<noteq> error_response ''SMS service not configured. Please contact administrator.''"
proof -
  have a: "dict_get phone_key [] = [] \<longrightarrow>
            send_verification_otp env user_id_key phone_key st =
              (error_response ''Phone number is required'', st)"
    apply (rule impI)
    apply (erule send_verification_otp_no_phone)
    done
  show ?thesis
    apply (rule conjI)
     apply (rule a)
    apply (rule conjI)
     apply (rule impI)
     apply (rule conjI)
      apply (erule send_verification_otp_issued [OF assms])
     apply (rule conjI)
      apply (rule impI)
      apply (erule (1) send_verification_otp_unconfigured)
     apply (erule send_verification_otp_all_codes)
    apply (rule error_responses_differ)
    done
qed

text \<open>
  Claim C8 as stated fails: leading zeros do not occur. Whatever \<^verbatim>\<open>random.randint\<close> draws
  between 100000 and 999999 and whatever the request, no call on a fresh process stores the
  code \<^verbatim>\<open>000000\<close>.
\<close>

theorem otp_leading_zero_counterexample:
  "\<not> (\<exists>env user_id_key phone_key.
         100000 \<le> random_randint env 100000 999999
       \<and> random_randint env 100000 999999 \<le> 999999
       \<and> map_option otp
           (otp_storage (snd (send_verification_otp env user_id_key phone_key initial_state))
              (dict_get user_id_key ''default'')) = Some ''000000'')"
proof
  assume "\<exists>env user_id_key phone_key.
         100000 \<le> random_randint env 100000 999999
       \<and> random_randint env 100000 999999 \<le> 999999
       \<and> map_option otp
           (otp_storage (snd (send_verification_otp env user_id_key phone_key initial_state))
              (dict_get user_id_key ''default'')) = Some ''000000''"
  then obtain env user_id_key phone_key
    where lo: "100000 \<le> random_randint env 100000 999999"
      and hi: "random_randint env 100000 999999 \<le> 999999"
      and z: "map_option otp
           (otp_storage (snd (send_verification_otp env user_id_key phone_key initial_state))
              (dict_get user_id_key ''default'')) = Some ''000000''"
    by (elim exE conjE)
  show False
  proof (cases "dict_get phone_key [] = []")
    case True
    have "otp_storage (snd (send_verification_otp env user_id_key phone_key initial_state))
            (dict_get user_id_key ''default'') = None"
      by (simp add: send_verification_otp_no_phone [OF True] initial_state_def)
    with z show False by simp
  next
    case False
    from z have "str_int (random_randint env 100000 999999) = ''000000''"
      by (simp add: send_verification_otp_record [OF False])
    moreover have "hd (str_int (random_randint env 100000 999999)) \<noteq> CHR ''0''"
      using otp_code_shape [OF lo hi] by (rule conjunct2 [THEN conjunct2])
    ultimately show False by simp
  qed
qed

text \<open>
  With the draw 100000 at time 1000000: no phone gives the error and leaves the stores; the
  phone of the example gives the code \<^verbatim>\<open>100000\<close> expiring at 601000000; without the Twilio
  account id the response is the configuration error.
\<close>

theorem send_verification_otp_issues_witness:
  "100000 \<le> random_randint demo_env 100000 999999
   \<and> random_randint demo_env 100000 999999 \<le> 999999
   \<and> dict_get None [] = ([] :: string)
   \<and> send_verification_otp demo_env None None verified_state =
       (error_response ''Phone number is required'', verified_state)
   \<and> dict_get (Some ''9163615366'') [] \<noteq> []
   \<and> otp_storage (snd (send_verification_otp demo_env None (Some ''9163615366'') verified_state))
        ''default'' =
       Some \<lparr>otp_phone = ''9163615366'', otp = ''100000'', expiry = 601000000, verified = False\<rparr>
   \<and> length ''100000'' = 6
   \<and> 100000 \<le> random_randint no_twilio_env 100000 999999
   \<and> random_randint no_twilio_env 100000 999999 \<le> 999999
   \<and> \<not> twilio_configured no_twilio_env
   \<and> fst (send_verification_otp no_twilio_env None (Some ''9163615366'') verified_state) =
       error_response ''SMS service not configured. Please contact administrator.''"
proof -
  have r: "100000 \<le> random_randint demo_env 100000 999999"
          "random_randint demo_env 100000 999999 \<le> 999999"
    by (simp_all add: demo_env_def)
  have q: "100000 \<le> random_randint no_twilio_env 100000 999999"
          "random_randint no_twilio_env 100000 999999 \<le> 999999"
    by (simp_all add: demo_env_def no_twilio_env_def)
  have n: "dict_get None [] = ([] :: string)"
    and p: "dict_get (Some ''9163615366'') [] \<noteq> []"
    and g: "dict_get (Some ''9163615366'') [] = ''9163615366''"
    and u: "dict_get None ''default'' = ''default''"
    by (simp_all add: dict_get_def)
  have e: "random_randint demo_env 100000 999999 = 100000"
          "datetime_now demo_env = 1000000"
    by (simp_all add: demo_env_def)
  have c: "\<not> twilio_configured no_twilio_env"
    by (simp add: twilio_configured_def no_twilio_env_def)
  note t1 = send_verification_otp_issues [OF r, of None None verified_state]
  note t2 = send_verification_otp_issues [OF r, of "Some ''9163615366''" None verified_state]
  note t3 = send_verification_otp_issues [OF q, of "Some ''9163615366''" None verified_state]
  have a1: "send_verification_otp demo_env None None verified_state =
       (error_response ''Phone number is required'', verified_state)"
    using t1 [THEN conjunct1] n by (rule mp)
  have b2: "\<exists>code. otp_storage
              (snd (send_verification_otp demo_env None (Some ''9163615366'') verified_state))
              (dict_get None ''default'') =
            Some \<lparr>otp_phone = dict_get (Some ''9163615366'') [], otp = code,
                  expiry = datetime_now demo_env + 600000000, verified = False\<rparr>
          \<and> code = str_int (random_randint demo_env 100000 999999)
          \<and> length code = 6 \<and> set code \<subseteq> set ''0123456789'' \<and> hd code \<noteq> CHR ''0''"
    using t2 [THEN conjunct2, THEN conjunct1, THEN mp, OF p] by (rule conjunct1)
  then obtain code where
    s: "otp_storage
              (snd (send_verification_otp demo_env None (Some ''9163615366'') verified_state))
              (dict_get None ''default'') =
            Some \<lparr>otp_phone = dict_get (Some ''9163615366'') [], otp = code,
                  expiry = datetime_now demo_env + 600000000, verified = False\<rparr>"
    and k: "code = str_int (random_randint demo_env 100000 999999)"
    by (elim exE conjE)
  have a2: "otp_storage (snd (send_verification_otp demo_env None (Some ''9163615366'') verified_state))
        ''default'' =
       Some \<lparr>otp_phone = ''9163615366'', otp = ''100000'', expiry = 601000000, verified = False\<rparr>"
    using s by (simp add: k e g u str_int_100000)
  have a3: "fst (send_verification_otp no_twilio_env None (Some ''9163615366'') verified_state) =
       error_response ''SMS service not configured. Please contact administrator.''"
    using t3 [THEN conjunct2, THEN conjunct1, THEN mp, OF p, THEN conjunct2, THEN conjunct1] c
    by (rule mp)
  have l: "length ''100000'' = 6" by simp
  show ?thesis
    by (intro conjI r q n a1 p a2 l c a3)
qed

subsection \<open>Alert history\<close>

text \<open>
  For a positive limit the endpoint returns the last \<open>limit\<close> alerts of the log (all of them
  when there are fewer), oldest first; a call of \<^verbatim>\<open>check_alerts\<close> appends exactly its alerts;
  clearing leaves the empty log.
\<close>

lemma slice_from_last:
  assumes "0 < n"
  shows "slice_from (- n) xs = drop (length xs - nat n) xs"
proof (cases "int (length xs) \<le> n")
  case True
  then have "length xs \<le> nat n" by simp
  with True assms show ?thesis by (simp add: slice_from_def Let_def)
next
  case False
  then have "nat (int (length xs) - n) = length xs - nat n"
    using assms by (simp add: nat_diff_distrib)
  with False assms show ?thesis by (simp add: slice_from_def Let_def max_def)
qed

lemma get_alert_history_positive:
  assumes "0 < limit"
  shows "alerts (get_alert_history limit st) =
           Some (drop (length (alert_history st) - nat limit) (alert_history st))"
  using assms by (simp add: get_alert_history_def slice_from_last)

lemma get_alert_history_at_most:
  assumes "0 < limit"
  shows "\<exists>als. alerts (get_alert_history limit st) = Some als \<and> int (length als) \<le> limit"
  using assms by (simp add: get_alert_history_positive)

lemma check_alerts_history_grows:
  "\<exists>als. alerts (fst (check_alerts env data user_id st)) = Some als
      \<and> alert_history (snd (snd (check_alerts env data user_id st))) = alert_history st @ als"
  by (cases "user_alert_settings st user_id")
     (simp_all add: check_alerts_unconfigured check_alerts_configured)

lemma clear_alert_history_empty: "alert_history (snd (clear_alert_history st)) = []"
  by (simp add: clear_alert_history_def)

text \<open>
  Claim C7 fails at the limit 0: \<^verbatim>\<open>alert_history[-0:]\<close> is the whole list, so with one alert
  in the log \<^verbatim>\<open>get_alert_history\<close> with limit 0 returns that alert, one more than the limit
  allows, the same answer as with limit 1.
\<close>

theorem get_alert_history_limit_zero:
  "alert_history one_alert_state = [demo_landslide]
   \<and> alerts (get_alert_history 0 one_alert_state) = Some [demo_landslide]
   \<and> \<not> int (length [demo_landslide]) \<le> 0
   \<and> alerts (get_alert_history 1 one_alert_state) = Some [demo_landslide]"
  by (simp add: get_alert_history_def slice_from_def one_alert_state_def)

subsection \<open>Alert ids\<close>

lemma consecutive_from_Nil: "consecutive_from n []"
  by (simp add: consecutive_from_def)

lemma consecutive_from_single: "consecutive_from n [n + 1]"
  by (simp add: consecutive_from_def)

lemma consecutive_from_append:
  assumes "consecutive_from n xs" and "consecutive_from (n + int (length xs)) ys"
  shows "consecutive_from n (xs @ ys)"
proof -
  have u: "[0..<length xs + length ys] = [0..<length xs] @ map (\<lambda>i. i + length xs) [0..<length ys]"
  proof -
    have "[0..<length xs + length ys] = [0..<length xs] @ [length xs..<length xs + length ys]"
      by (rule upt_add_eq_append) simp
    moreover have "map (\<lambda>i. i + length xs) [0..<length ys] = [length xs..<length ys + length xs]"
      by (rule map_add_upt)
    ultimately show ?thesis by (simp only: add.commute)
  qed
  have "map (\<lambda>i. n + 1 + int i) [0..<length xs + length ys] =
        map (\<lambda>i. n + 1 + int i) [0..<length xs]
        @ map (\<lambda>i. n + int (length xs) + 1 + int i) [0..<length ys]"
    unfolding u by (simp add: o_def algebra_simps)
  also have "\<dots> = xs @ ys"
    using assms by (simp only: consecutive_from_def)
  finally show ?thesis
    by (simp add: consecutive_from_def)
qed

lemma consecutive_from_sorted:
  assumes "consecutive_from n ids"
  shows "sorted_wrt (<) ids"
proof -
  have "sorted_wrt (<) (map (\<lambda>i. n + 1 + int i) [0..<length ids])"
    by (simp add: sorted_wrt_map sorted_wrt_iff_nth_less)
  with assms show ?thesis by (simp only: consecutive_from_def)
qed

lemma ids_new_landslide:
  "consecutive_from (int (length h)) (map a_id (new_landslide s v loc t h))"
  by (simp add: new_landslide_eq consecutive_from_Nil consecutive_from_single)

lemma ids_new_flood:
  "consecutive_from (int (length h)) (map a_id (new_flood s v loc t h))"
  by (simp add: new_flood_eq consecutive_from_Nil consecutive_from_single)

lemma ids_new_rainfall:
  "consecutive_from (int (length h)) (map a_id (new_rainfall s v loc t h))"
  by (simp add: new_rainfall_eq consecutive_from_Nil consecutive_from_single)

lemma ids_created:
  "consecutive_from (int (length h)) (map a_id (created s d t h))"
proof -
  let ?loc = "dict_get (location d) ''Unknown Location''"
  let ?a = "new_landslide s (dict_get (landslide_risk d) 0) ?loc t h"
  let ?b = "new_flood s (dict_get (flood_risk d) 0) ?loc t (h @ ?a)"
  let ?c = "new_rainfall s (dict_get (rainfall d) 0) ?loc t (h @ ?a @ ?b)"
  have a: "consecutive_from (int (length h)) (map a_id ?a)"
    by (rule ids_new_landslide)
  have b: "consecutive_from (int (length h) + int (length (map a_id ?a))) (map a_id ?b)"
    using ids_new_flood [of "h @ ?a" s "dict_get (flood_risk d) 0" ?loc t] by simp
  have c: "consecutive_from (int (length h) + int (length (map a_id ?a @ map a_id ?b)))
             (map a_id ?c)"
    using ids_new_rainfall [of "h @ ?a @ ?b" s "dict_get (rainfall d) 0" ?loc t]
    by (simp add: add.assoc)
  have "consecutive_from (int (length h)) ((map a_id ?a @ map a_id ?b) @ map a_id ?c)"
    by (rule consecutive_from_append [OF consecutive_from_append [OF a b] c])
  then show ?thesis
    by (simp add: created_def Let_def)
qed

lemma handle_ids:
  assumes "req \<noteq> Clear_history"
  shows "consecutive_from (int (length (alert_history st))) (map a_id (fst (handle env req st)))
       \<and> alert_history (snd (handle env req st)) = alert_history st @ fst (handle env req st)"
proof (cases req)
  case (Save_settings settings user_id)
  then show ?thesis
    by (simp add: save_alert_settings_def consecutive_from_Nil)
next
  case (Check_alerts data user_id)
  show ?thesis
  proof (cases "user_alert_settings st user_id")
    case None
    with Check_alerts show ?thesis
      by (simp add: check_alerts_unconfigured dict_get_def consecutive_from_Nil)
  next
    case (Some s)
    with Check_alerts show ?thesis
      by (simp add: check_alerts_configured dict_get_def ids_created)
  qed
next
  case Clear_history
  with assms show ?thesis by simp
next
  case (Send_otp user_id_key phone_key)
  then show ?thesis
    by (simp add: send_verification_otp_def Let_def consecutive_from_Nil split: outcome.split)
next
  case (Verify_otp user_id_key otp_key)
  then show ?thesis
    by (simp add: verify_otp_def Let_def consecutive_from_Nil split: option.split)
qed

lemma serve_ids:
  assumes "\<forall>(env, req) \<in> set trace. req \<noteq> Clear_history"
  shows "consecutive_from (int (length (alert_history st))) (map a_id (fst (serve trace st)))
       \<and> alert_history (snd (serve trace st)) = alert_history st @ fst (serve trace st)"
  using assms
proof (induction trace arbitrary: st)
  case Nil
  then show ?case by (simp add: consecutive_from_Nil)
next
  case (Cons x trace)
  obtain env req where x: "x = (env, req)" by (cases x)
  let ?c = "fst (handle env req st)" and ?st = "snd (handle env req st)"
  from Cons.prems x have r: "req \<noteq> Clear_history" by simp
  note h = handle_ids [OF r, of st env]
  from Cons.prems have "\<forall>(env, req) \<in> set trace. req \<noteq> Clear_history" by simp
  note ih = Cons.IH [OF this, of ?st]
  have s: "serve (x # trace) st = (?c @ fst (serve trace ?st), snd (serve trace ?st))"
    by (simp add: x split: prod.split)
  from h ih have "consecutive_from (int (length (alert_history st)))
      (map a_id ?c @ map a_id (fst (serve trace ?st)))"
    by (intro consecutive_from_append) simp_all
  with h ih show ?case
    by (simp add: s)
qed


lemma serve_Cons:
  "serve ((env, req) # rest) st =
     (fst (handle env req st) @ fst (serve rest (snd (handle env req st))),
      snd (serve rest (snd (handle env req st))))"
  by (simp split: prod.split)

text \<open>
  Claim C9, as amended. Over any sequence of requests that does not clear the history,
  started from any stores, the alerts created carry the ids history length + 1,
  history length + 2, and so on in the order of their creation: each id is the length of the
  history at creation plus one, the ids are strictly increasing, and the history afterwards
  is the old one followed by the created alerts. A single call of \<^verbatim>\<open>check_alerts\<close> is the
  sequence of one request.
\<close>

theorem alert_ids_consecutive:
  assumes "Clear_history \<notin> snd ` set trace"
  shows "map a_id (fst (serve trace st)) =
           map (\<lambda>i. int (length (alert_history st)) + 1 + int i)
             [0..<length (fst (serve trace st))]
       \<and> sorted_wrt (<) (map a_id (fst (serve trace st)))
       \<and> alert_history (snd (serve trace st)) = alert_history st @ fst (serve trace st)"
proof -
  from assms have "\<forall>(env, req) \<in> set trace. req \<noteq> Clear_history"
    by force
  note s = serve_ids [OF this, of st]
  from s have c: "consecutive_from (int (length (alert_history st)))
                    (map a_id (fst (serve trace st)))"
    by (rule conjunct1)
  from c have "map (\<lambda>i. int (length (alert_history st)) + 1 + int i)
                 [0..<length (fst (serve trace st))] = map a_id (fst (serve trace st))"
    by (simp add: consecutive_from_def)
  then have "map a_id (fst (serve trace st)) =
           map (\<lambda>i. int (length (alert_history st)) + 1 + int i)
             [0..<length (fst (serve trace st))]"
    by (rule sym)
  moreover note consecutive_from_sorted [OF c] s [THEN conjunct2]
  ultimately show ?thesis by (intro conjI)
qed

lemma handle_demo_save:
  "handle demo_env (Save_settings demo_settings ''default'') initial_state = ([], demo_state)"
  by (simp add: save_alert_settings_def demo_state_def initial_state_def)

lemma handle_demo_check:
  "handle demo_env (Check_alerts demo_data ''default'') demo_state =
     ([demo_landslide, demo_flood], demo_state\<lparr>alert_history := [demo_landslide, demo_flood]\<rparr>)"
  by (simp add: demo_check_alerts' demo_response_def dict_get_def)

lemma handle_demo_clear:
  "handle demo_env Clear_history (demo_state\<lparr>alert_history := [demo_landslide, demo_flood]\<rparr>)
     = ([], demo_state)"
  by (simp add: clear_alert_history_def demo_state_def initial_state_def)

lemma serve_cleared:
  "fst (serve [demo_save, demo_check, demo_clear, demo_check] initial_state) =
     [demo_landslide, demo_flood, demo_landslide, demo_flood]"
  unfolding demo_save_def demo_check_def demo_clear_def
  by (simp only: serve_Cons serve.simps handle_demo_save handle_demo_check handle_demo_clear
        fst_conv snd_conv append_Nil append_Nil2 append_Cons)

text \<open>
  Claim C9 as stated fails over the process lifetime: after \<^verbatim>\<open>clear_alert_history\<close> the ids
  start again at 1. Saving the example settings, checking, clearing and checking again
  creates alerts with the ids 1, 2, 1, 2, which is not even weakly increasing.
\<close>

theorem alert_ids_after_clear_counterexample:
  "map a_id (fst (serve [demo_save, demo_check, demo_clear, demo_check] initial_state))
     = [1, 2, 1, 2]
   \<and> \<not> sorted (map a_id (fst (serve [demo_save, demo_check, demo_clear, demo_check] initial_state)))"
  by (simp add: serve_cleared demo_landslide_def demo_flood_def)

lemma length_second_check:
  "length (fst (handle demo_env (Check_alerts demo_data ''default'')
             (demo_state\<lparr>alert_history := [demo_landslide, demo_flood]\<rparr>))) = 2"
proof -
  have "user_alert_settings (demo_state\<lparr>alert_history := [demo_landslide, demo_flood]\<rparr>)
          ''default'' = Some demo_settings"
    by (simp add: demo_configured)
  then show ?thesis
    by (simp add: check_alerts_configured dict_get_def length_created demo_settings_def
          demo_data_def)
qed

text \<open>Without the clear, the two checks create the ids 1, 2, 3, 4.\<close>

theorem alert_ids_consecutive_witness:
  "Clear_history \<notin> snd ` set [demo_save, demo_check, demo_check]
   \<and> map a_id (fst (serve [demo_save, demo_check, demo_check] initial_state)) = [1, 2, 3, 4]
   \<and> sorted_wrt (<) (map a_id (fst (serve [demo_save, demo_check, demo_check] initial_state)))"
proof -
  have n: "Clear_history \<notin> snd ` set [demo_save, demo_check, demo_check]"
    by (simp add: demo_save_def demo_check_def)
  have l: "length (fst (serve [demo_save, demo_check, demo_check] initial_state)) = 4"
    unfolding demo_save_def demo_check_def
    by (simp only: serve_Cons serve.simps handle_demo_save handle_demo_check
          fst_conv snd_conv append_Nil append_Nil2 length_append length_second_check)
       simp
  have h: "alert_history initial_state = []"
    by (simp add: initial_state_def)
  have u: "[0..<4] = [0, 1, 2, 3 :: nat]"
    by code_simp
  from alert_ids_consecutive [OF n, of initial_state]
  have "map a_id (fst (serve [demo_save, demo_check, demo_check] initial_state)) = [1, 2, 3, 4]"
    and "sorted_wrt (<) (map a_id (fst (serve [demo_save, demo_check, demo_check] initial_state)))"
    by (simp_all add: l h u)
  with n show ?thesis by (intro conjI)
qed

end
